theory Spec2Isabelle
  imports Complex_Main "HOL-Library.Word" "HOL-Library.Sublist" "HOL-Library.AList"
    "HOL-Library.Monad_Syntax"
begin

section \<open>JavaScript values\<close>

text \<open>
  A JavaScript string is a sequence of UTF-16 code units. \<open>js\<close> turns an ASCII literal
  into such a sequence, so that the source's string constants can be written as they are.
\<close>

type_synonym jstring = "16 word list"

definition js :: "string \<Rightarrow> jstring" where
  "js s = map of_char s"

text \<open>
  The values the application handles at run time: what \<open>JSON.parse\<close> returns, plus
  \<open>undefined\<close>, which the object literal of \<open>handleSearch\<close> writes into its
  placeholder fields. The TypeScript interfaces of \<open>types.ts\<close> are erased at run time
  (the sources cast with \<open>as TrailData\<close>), so a trail record is an object: an ordered
  list of properties.
\<close>

datatype jsval =
    JUndefined
  | JNull
  | JBool bool
  | JNum real
  | JStr jstring
  | JArr "jsval list"
  | JObj "(jstring \<times> jsval) list"

type_synonym props = "(jstring \<times> jsval) list"

text \<open>The truth value of \<open>!!v\<close>.\<close>

fun truthy :: "jsval \<Rightarrow> bool" where
  "truthy JUndefined = False"
| "truthy JNull = False"
| "truthy (JBool b) = b"
| "truthy (JNum r) = (r \<noteq> 0)"
| "truthy (JStr s) = (s \<noteq> [])"
| "truthy (JArr xs) = True"
| "truthy (JObj ps) = True"

text \<open>The decimal numeral of an array index, as a property key.\<close>

fun decimal :: "nat \<Rightarrow> jstring" where
  "decimal n =
     (if n < 10 then [of_nat (48 + n)]
      else decimal (n div 10) @ [of_nat (48 + n mod 10)])"

declare decimal.simps [simp del]

definition indexed :: "jsval list \<Rightarrow> props" where
  "indexed xs = zip (map decimal [0..<length xs]) xs"

text \<open>
  The own enumerable properties of a value, which is what an object spread \<open>{...v}\<close>
  copies: the properties of an object, the indexed elements of an array, the indexed
  code units of a string, and nothing for the other values.
\<close>

fun ownProps :: "jsval \<Rightarrow> props" where
  "ownProps (JObj ps) = ps"
| "ownProps (JArr xs) = indexed xs"
| "ownProps (JStr s) = indexed (map (\<lambda>c. JStr [c]) s)"
| "ownProps JUndefined = []"
| "ownProps JNull = []"
| "ownProps (JBool b) = []"
| "ownProps (JNum r) = []"

text \<open>A property of a property list; a missing property reads as \<open>undefined\<close>.\<close>

definition field :: "props \<Rightarrow> jstring \<Rightarrow> jsval" where
  "field ps k = (case map_of ps k of None \<Rightarrow> JUndefined | Some v \<Rightarrow> v)"

datatype error = NetworkError | NoResponse | InvalidJSON | TypeError

text \<open>
  The property read \<open>v.k\<close>, for the keys the sources read (none of them is a method
  of a prototype). Reading a property of \<open>null\<close> or \<open>undefined\<close> throws a
  TypeError (\<open>None\<close>). Arrays and strings have a \<open>length\<close>.
\<close>

fun getProp :: "jsval \<Rightarrow> jstring \<Rightarrow> jsval option" where
  "getProp JUndefined k = None"
| "getProp JNull k = None"
| "getProp (JObj ps) k = Some (field ps k)"
| "getProp (JArr xs) k =
     Some (if k = js ''length'' then JNum (of_nat (length xs)) else field (indexed xs) k)"
| "getProp (JStr s) k =
     Some (if k = js ''length'' then JNum (of_nat (length s))
           else field (indexed (map (\<lambda>c. JStr [c]) s)) k)"
| "getProp (JBool b) k = Some JUndefined"
| "getProp (JNum r) k = Some JUndefined"

text \<open>
  \<open>Object.assign\<close>-style copying, the effect of listing a spread inside an object
  literal: every property of the source is written to the target in order; a key the
  target has keeps its position and takes the new value, a new key goes to the end.
  (An engine enumerates integer-like keys before the others; the order of the properties
  is only ever seen by \<open>JSON.stringify\<close>, which is a parameter below.)
\<close>

definition assign :: "props \<Rightarrow> props \<Rightarrow> props" where
  "assign target src = foldl (\<lambda>acc (k, v). AList.update k v acc) target src"

text \<open>\<open>{ ...a, ...b }\<close> and \<open>{ ...a, ...b, ...c }\<close>.\<close>

definition spread2 :: "jsval \<Rightarrow> jsval \<Rightarrow> jsval" where
  "spread2 a b = JObj (assign (assign [] (ownProps a)) (ownProps b))"

definition spread3 :: "jsval \<Rightarrow> jsval \<Rightarrow> jsval \<Rightarrow> jsval" where
  "spread3 a b c = JObj (assign (assign (assign [] (ownProps a)) (ownProps b)) (ownProps c))"

section \<open>String operations of the runtime\<close>

text \<open>
  \<open>String.prototype.trim\<close> removes the code units of the ECMAScript WhiteSpace and
  LineTerminator productions from both ends.
\<close>

definition isWhiteSpace :: "16 word \<Rightarrow> bool" where
  "isWhiteSpace c \<longleftrightarrow>
     c \<in> set [0x0009, 0x000A, 0x000B, 0x000C, 0x000D, 0x0020, 0x00A0, 0x1680,
              0x2000, 0x2001, 0x2002, 0x2003, 0x2004, 0x2005, 0x2006, 0x2007,
              0x2008, 0x2009, 0x200A, 0x2028, 0x2029, 0x202F, 0x205F, 0x3000, 0xFEFF]"

definition trim :: "jstring \<Rightarrow> jstring" where
  "trim s = rev (dropWhile isWhiteSpace (rev (dropWhile isWhiteSpace s)))"

text \<open>\<open>s.startsWith(p)\<close> and \<open>s.includes(p)\<close>.\<close>

definition startsWith :: "jstring \<Rightarrow> jstring \<Rightarrow> bool" where
  "startsWith s p = prefix p s"

definition includesStr :: "jstring \<Rightarrow> jstring \<Rightarrow> bool" where
  "includesStr s p = sublist p s"

text \<open>
  \<open>s.replace(/pat/g, '')\<close> for a literal, non-empty pattern: the matches are found
  from left to right and do not overlap.
\<close>

function removeAll :: "jstring \<Rightarrow> jstring \<Rightarrow> jstring" where
  "removeAll pat [] = []"
| "removeAll pat (c # cs) =
     (if pat \<noteq> [] \<and> prefix pat (c # cs) then removeAll pat (drop (length pat) (c # cs))
      else c # removeAll pat cs)"
  by pat_completeness auto
termination
  by (relation "measure (\<lambda>(pat, s). length s)") (auto simp: neq_Nil_conv)

text \<open>
  The built-in functions whose result depends on the JavaScript engine are parameters of
  the model: \<open>JSON.parse\<close> (\<open>None\<close> when it throws a SyntaxError),
  \<open>JSON.stringify\<close>, \<open>String.prototype.toLowerCase\<close>, and the conversion to a
  string of a number (\<open>NumberToString\<close>, which never throws) and of an array or an
  object (\<open>ToString\<close>). Converting an array or an object runs its \<open>toString\<close>
  and \<open>valueOf\<close>, and throws a TypeError (\<open>None\<close>) when neither gives a
  primitive value, as for the parsed \<open>{"toString": null}\<close>.
\<close>

record runtime =
  JSON_parse :: "jstring \<Rightarrow> jsval option"
  JSON_stringify :: "jsval \<Rightarrow> jstring"
  toLowerCase :: "jstring \<Rightarrow> jstring"
  NumberToString :: "real \<Rightarrow> jstring"
  ToString :: "jsval \<Rightarrow> jstring option"

text \<open>
  The text a template literal \<open>`${v}`\<close> inserts for \<open>v\<close>, or \<open>None\<close> when
  the conversion throws.
\<close>

definition template :: "runtime \<Rightarrow> jsval \<Rightarrow> jstring option" where
  "template rt v =
     (case v of
        JStr s \<Rightarrow> Some s
      | JUndefined \<Rightarrow> Some (js ''undefined'')
      | JNull \<Rightarrow> Some (js ''null'')
      | JBool b \<Rightarrow> Some (if b then js ''true'' else js ''false'')
      | JNum r \<Rightarrow> Some (NumberToString rt r)
      | JArr xs \<Rightarrow> ToString rt v
      | JObj ps \<Rightarrow> ToString rt v)"

text \<open>The optional chain \<open>v?.k\<close>.\<close>

definition optionalChain :: "jsval \<Rightarrow> jstring \<Rightarrow> jsval option" where
  "optionalChain v k =
     (case v of JUndefined \<Rightarrow> Some JUndefined | JNull \<Rightarrow> Some JUndefined | _ \<Rightarrow> getProp v k)"

section \<open>The record store\<close>

text \<open>
  \<open>localStorage\<close>: string keys and string values, enumerated by \<open>key(i)\<close> for
  \<open>i < length\<close>. \<open>setItem\<close> overwrites the value of a key the store has; where a
  new key is enumerated is left to the browser, and the model puts it last.
\<close>

type_synonym storage = "(jstring \<times> jstring) list"

definition getItem :: "storage \<Rightarrow> jstring \<Rightarrow> jstring option" where
  "getItem store k = map_of store k"

definition setItem :: "storage \<Rightarrow> jstring \<Rightarrow> jstring \<Rightarrow> storage" where
  "setItem store k v = AList.update k v store"

definition keys :: "storage \<Rightarrow> jstring list" where
  "keys store = map fst store"

definition PREFIX :: jstring where
  "PREFIX = js ''ecotrek_community_''"

definition PLANS_KEY :: jstring where
  "PLANS_KEY = js ''ecotrek_my_plans''"

section \<open>findLocalTrail\<close>

text \<open>
  The body of the \<open>try\<close> block for one key. \<open>Inl\<close> is an exception (which the
  \<open>catch\<close> of the loop logs), \<open>Inr None\<close> is \<open>continue\<close> or the end of the
  block without a match, \<open>Inr (Some data)\<close> is \<open>return data\<close>. Calling
  \<open>toLowerCase\<close> on a truthy name that is not a string throws a TypeError.
\<close>

definition tryEntry :: "runtime \<Rightarrow> storage \<Rightarrow> jstring \<Rightarrow> jstring \<Rightarrow> error + jsval option" where
  "tryEntry rt store normalizedQuery key =
     (case getItem store key of
        None \<Rightarrow> Inr None
      | Some json \<Rightarrow>
          if json = [] then Inr None
          else (case JSON_parse rt json of
                  None \<Rightarrow> Inl InvalidJSON
                | Some data \<Rightarrow>
                    if \<not> truthy data then Inr None
                    else (case getProp data (js ''name'') of
                            None \<Rightarrow> Inl TypeError
                          | Some nm \<Rightarrow>
                              if \<not> truthy nm then Inr None
                              else (case nm of
                                      JStr n \<Rightarrow>
                                        (let trailName = toLowerCase rt n in
                                         if includesStr trailName normalizedQuery
                                            \<or> includesStr normalizedQuery trailName
                                         then Inr (Some data) else Inr None)
                                    | _ \<Rightarrow> Inl TypeError))))"

text \<open>The \<open>for\<close> loop over the keys of the store, in enumeration order.\<close>

fun scanKeys :: "runtime \<Rightarrow> storage \<Rightarrow> jstring \<Rightarrow> jstring list \<Rightarrow> jsval option" where
  "scanKeys rt store normalizedQuery [] = None"
| "scanKeys rt store normalizedQuery (key # rest) =
     (if key \<noteq> [] \<and> startsWith key PREFIX then
        (case tryEntry rt store normalizedQuery key of
           Inr (Some data) \<Rightarrow> Some data
         | Inr None \<Rightarrow> scanKeys rt store normalizedQuery rest
         | Inl e \<Rightarrow> scanKeys rt store normalizedQuery rest)
      else scanKeys rt store normalizedQuery rest)"

definition normalize :: "runtime \<Rightarrow> jstring \<Rightarrow> jstring" where
  "normalize rt query = trim (toLowerCase rt query)"

definition findLocalTrail :: "runtime \<Rightarrow> storage \<Rightarrow> jstring \<Rightarrow> jsval option" where
  "findLocalTrail rt store query = scanKeys rt store (normalize rt query) (keys store)"

section \<open>The staged generator\<close>

text \<open>
  The content provider is outside the program: what \<open>ai.models.generateContent\<close>
  does with a request is an input of the model. The call either rejects, or resolves
  with a response whose \<open>text\<close> is a string or \<open>undefined\<close>.
\<close>

datatype outcome = Rejected | Responded "jstring option"

text \<open>
  \<open>safeParseJSON\<close>: an undefined or empty text throws; otherwise the markdown fences
  are removed, the text is trimmed and handed to \<open>JSON.parse\<close>, whose SyntaxError
  is rethrown. Nothing else is checked: whatever value the text denotes is returned.
\<close>

definition safeParseJSON :: "runtime \<Rightarrow> jstring option \<Rightarrow> error + jsval" where
  "safeParseJSON rt text =
     (case text of
        None \<Rightarrow> Inl NoResponse
      | Some t \<Rightarrow>
          if t = [] then Inl NoResponse
          else (let cleanText = trim (removeAll (js ''```'') (removeAll (js ''```json'') t))
                in case JSON_parse rt cleanText of
                     None \<Rightarrow> Inl InvalidJSON
                   | Some v \<Rightarrow> Inr v))"

text \<open>
  The prompts of the two later stages are template literals over fields of
  \<open>basicInfo\<close>: \<open>name\<close> and \<open>location\<close> for the misc stage, and also
  \<open>centerCoordinates?.latitude\<close> and \<open>centerCoordinates?.longitude\<close> for the
  routes stage. The substitutions are read and converted from left to right; a read on
  \<open>null\<close> or a conversion that throws ends the stage with a TypeError (\<open>None\<close>)
  before any request is sent. Of the prompt, the model keeps the texts substituted. The
  prompt of the basic stage substitutes the query, a string.
\<close>

definition miscPrompt :: "runtime \<Rightarrow> jsval \<Rightarrow> jstring list option" where
  "miscPrompt rt basicInfo = do {
     name \<leftarrow> getProp basicInfo (js ''name'');
     nameText \<leftarrow> template rt name;
     location \<leftarrow> getProp basicInfo (js ''location'');
     locationText \<leftarrow> template rt location;
     Some [nameText, locationText]
   }"

definition routesPrompt :: "runtime \<Rightarrow> jsval \<Rightarrow> jstring list option" where
  "routesPrompt rt basicInfo = do {
     name \<leftarrow> getProp basicInfo (js ''name'');
     nameText \<leftarrow> template rt name;
     location \<leftarrow> getProp basicInfo (js ''location'');
     locationText \<leftarrow> template rt location;
     center \<leftarrow> getProp basicInfo (js ''centerCoordinates'');
     latitude \<leftarrow> optionalChain center (js ''latitude'');
     latitudeText \<leftarrow> template rt latitude;
     center' \<leftarrow> getProp basicInfo (js ''centerCoordinates'');
     longitude \<leftarrow> optionalChain center' (js ''longitude'');
     longitudeText \<leftarrow> template rt longitude;
     Some [nameText, locationText, latitudeText, longitudeText]
   }"

text \<open>
  The three stages. Each builds its prompt, sends it with its response schema and
  returns \<open>safeParseJSON(response.text)\<close>; a prompt that cannot be built, a rejected
  call or a throw of \<open>safeParseJSON\<close> rejects the stage's promise (\<open>Inl\<close>).
\<close>

definition generateBasicTrailInfo :: "runtime \<Rightarrow> outcome \<Rightarrow> error + jsval" where
  "generateBasicTrailInfo rt response =
     (case response of
        Rejected \<Rightarrow> Inl NetworkError
      | Responded text \<Rightarrow> safeParseJSON rt text)"

definition generateTrailMisc :: "runtime \<Rightarrow> jsval \<Rightarrow> outcome \<Rightarrow> error + jsval" where
  "generateTrailMisc rt basicInfo response =
     (case miscPrompt rt basicInfo of
        None \<Rightarrow> Inl TypeError
      | Some prompt \<Rightarrow>
          (case response of
             Rejected \<Rightarrow> Inl NetworkError
           | Responded text \<Rightarrow> safeParseJSON rt text))"

definition generateTrailRoutes :: "runtime \<Rightarrow> jsval \<Rightarrow> outcome \<Rightarrow> error + jsval" where
  "generateTrailRoutes rt basicInfo response =
     (case routesPrompt rt basicInfo of
        None \<Rightarrow> Inl TypeError
      | Some prompt \<Rightarrow>
          (case response of
             Rejected \<Rightarrow> Inl NetworkError
           | Responded text \<Rightarrow> safeParseJSON rt text))"

text \<open>
  The response schemas of \<open>geminiService.ts\<close> as data (the \<open>description\<close>
  strings are prose for the provider and carry no constraint).
\<close>

datatype schema =
    SString
  | SNumber
  | SArray schema
  | SObject "(jstring \<times> schema) list" "jstring list"

definition routesSchema :: schema where
  "routesSchema =
     SObject
       [(js ''routeSegments'',
         SArray
           (SObject
              [(js ''name'', SString),
               (js ''distance'', SString),
               (js ''time'', SString),
               (js ''description'', SString),
               (js ''landmarks'', SString),
               (js ''timeline'',
                SArray
                  (SObject
                     [(js ''name'', SString),
                      (js ''coordinates'', SArray SNumber),
                      (js ''distance'', SString),
                      (js ''time'', SString),
                      (js ''description'', SString),
                      (js ''highlights'', SString)]
                     [js ''name'', js ''coordinates'', js ''description'']))]
              [js ''name'', js ''distance'', js ''time'', js ''description'',
               js ''landmarks'', js ''timeline'']))]
       [js ''routeSegments'']"

text \<open>
  Modelled from the spec: the schema contract of its section 4.2 (field types, presence
  of the required fields, nesting), which the provider is asked to honour; no function
  under src/ checks a value against a schema. A value conforms when it has the
  schema's type, an object has every required property and only declared ones, and
  every property and array element conforms in turn.
\<close>

fun conforms :: "schema \<Rightarrow> jsval \<Rightarrow> bool" where
  "conforms SString v = (case v of JStr s \<Rightarrow> True | _ \<Rightarrow> False)"
| "conforms SNumber v = (case v of JNum r \<Rightarrow> True | _ \<Rightarrow> False)"
| "conforms (SArray item) v =
     (case v of JArr xs \<Rightarrow> list_all (conforms item) xs | _ \<Rightarrow> False)"
| "conforms (SObject properties required) v =
     (case v of
        JObj ps \<Rightarrow>
          list_all (\<lambda>k. k \<in> fst ` set ps) required
          \<and> list_all (\<lambda>(k, x). k \<in> fst ` set properties) ps
          \<and> list_all (\<lambda>(k, s). case map_of ps k of None \<Rightarrow> True | Some x \<Rightarrow> conforms s x)
                properties
      | _ \<Rightarrow> False)"

text \<open>
  The routes contract of the spec: exactly two distinct segments, each with a non-empty
  timeline.
\<close>

definition timelineNonEmpty :: "jsval \<Rightarrow> bool" where
  "timelineNonEmpty seg =
     (case getProp seg (js ''timeline'') of Some (JArr (w # ws)) \<Rightarrow> True | _ \<Rightarrow> False)"

definition routesContract :: "jsval \<Rightarrow> bool" where
  "routesContract routes =
     (case getProp routes (js ''routeSegments'') of
        Some (JArr [s1, s2]) \<Rightarrow> s1 \<noteq> s2 \<and> timelineNonEmpty s1 \<and> timelineNonEmpty s2
      | _ \<Rightarrow> False)"

section \<open>The application state and the search handler\<close>

datatype view = Home | Guide | Saved

record app =
  view :: view
  isLoading :: bool
  currentTrail :: "jsval option"
  savedTrails :: "jsval list"

datatype stage = Basic | Misc | Routes

text \<open>
  What a run of the handler does to the outside, in order: a request to the content
  provider, \<open>setCurrentTrail\<close> with a record, the functional \<open>setCurrentTrail\<close>
  of a stage's success callback (with the record it leaves), the \<open>console.error\<close>
  of a stage's \<open>catch\<close>, the \<open>alert\<close>, \<open>localStorage.setItem\<close>, and
  the rejection nobody handles when the callback of \<open>Promise.all\<close> throws.
\<close>

datatype effect =
    Call stage
  | Display "jsval option"
  | Merged stage "jsval option"
  | ConsoleError stage
  | Alert
  | StoreSet jstring jstring
  | UnhandledRejection

text \<open>
  The object literal \<open>partialTrail\<close>. Its eight reads of \<open>basicInfo\<close> throw a
  TypeError when \<open>basicInfo\<close> is \<open>null\<close> (\<open>None\<close>); the non-null assertions
  \<open>!\<close> are erased at run time.
\<close>

definition partialTrail :: "jsval \<Rightarrow> jsval option" where
  "partialTrail basicInfo = do {
     name \<leftarrow> getProp basicInfo (js ''name'');
     location \<leftarrow> getProp basicInfo (js ''location'');
     highlight \<leftarrow> getProp basicInfo (js ''highlight'');
     difficulty \<leftarrow> getProp basicInfo (js ''difficulty'');
     duration \<leftarrow> getProp basicInfo (js ''duration'');
     len \<leftarrow> getProp basicInfo (js ''length'');
     elevationGain \<leftarrow> getProp basicInfo (js ''elevationGain'');
     centerCoordinates \<leftarrow> getProp basicInfo (js ''centerCoordinates'');
     Some (JObj
       [(js ''name'', name),
        (js ''location'', location),
        (js ''highlight'', highlight),
        (js ''difficulty'', difficulty),
        (js ''duration'', duration),
        (js ''length'', len),
        (js ''elevationGain'', elevationGain),
        (js ''centerCoordinates'', centerCoordinates),
        (js ''description'', JUndefined),
        (js ''story'', JUndefined),
        (js ''routeSegments'', JUndefined),
        (js ''gear'', JUndefined),
        (js ''safetyTips'', JUndefined),
        (js ''bestSeason'', JUndefined),
        (js ''communityTips'', JUndefined)])
   }"

text \<open>
  The updaters the two success callbacks pass to \<open>setCurrentTrail\<close>:
  \<open>prev => { if (!prev) return null; return { ...prev, ...misc }; }\<close>, and the same
  with \<open>routes\<close>. React applies an updater to the state of the moment.
\<close>

definition miscUpdater :: "jsval \<Rightarrow> jsval option \<Rightarrow> jsval option" where
  "miscUpdater misc prev =
     (case prev of
        None \<Rightarrow> None
      | Some p \<Rightarrow> if \<not> truthy p then None else Some (spread2 p misc))"

definition routesUpdater :: "jsval \<Rightarrow> jsval option \<Rightarrow> jsval option" where
  "routesUpdater routes prev =
     (case prev of
        None \<Rightarrow> None
      | Some p \<Rightarrow> if \<not> truthy p then None else Some (spread2 p routes))"

text \<open>
  \<open>miscPromise\<close> and \<open>routesPromise\<close> settling: on success the callback updates
  the state and the promise resolves with the stage's result; on failure the
  \<open>catch\<close> logs and the promise resolves with \<open>{}\<close>.
\<close>

definition settleMisc :: "runtime \<Rightarrow> jsval \<Rightarrow> outcome \<Rightarrow> app \<Rightarrow> jsval \<times> app \<times> effect list" where
  "settleMisc rt basicInfo response st =
     (case generateTrailMisc rt basicInfo response of
        Inr misc \<Rightarrow>
          (let st' = st\<lparr>currentTrail := miscUpdater misc (currentTrail st)\<rparr>
           in (misc, st', [Merged Misc (currentTrail st')]))
      | Inl err \<Rightarrow> (JObj [], st, [ConsoleError Misc]))"

definition settleRoutes :: "runtime \<Rightarrow> jsval \<Rightarrow> outcome \<Rightarrow> app \<Rightarrow> jsval \<times> app \<times> effect list" where
  "settleRoutes rt basicInfo response st =
     (case generateTrailRoutes rt basicInfo response of
        Inr routes \<Rightarrow>
          (let st' = st\<lparr>currentTrail := routesUpdater routes (currentTrail st)\<rparr>
           in (routes, st', [Merged Routes (currentTrail st')]))
      | Inl err \<Rightarrow> (JObj [], st, [ConsoleError Routes]))"

text \<open>
  The answers of the provider to the three requests of one search, and which of the two
  concurrent stages settles first when both requests are under way.
\<close>

record responses =
  basicR :: outcome
  miscR :: outcome
  routesR :: outcome
  miscFirst :: bool

text \<open>
  The callback of \<open>Promise.all\<close>, which runs once both promises have resolved. The
  template literal of the storage key converts the name of the final record; when that
  throws, the callback ends there and \<open>setItem\<close> is not reached. \<open>setItem\<close> itself
  is taken not to fail.
\<close>

definition persistFinal ::
    "runtime \<Rightarrow> jsval \<Rightarrow> jsval \<Rightarrow> jsval \<Rightarrow> storage \<Rightarrow> storage \<times> effect list" where
  "persistFinal rt partial misc routes store =
     (let finalTrail = spread3 partial misc routes in
      case template rt (field (ownProps finalTrail) (js ''name'')) of
        None \<Rightarrow> (store, [UnhandledRejection])
      | Some nameText \<Rightarrow>
          (let storageKey = PREFIX @ nameText;
               text = JSON_stringify rt finalTrail
           in (setItem store storageKey text, [StoreSet storageKey text])))"

text \<open>
  The requests stage 2 sends: \<open>handleSearch\<close> calls the misc stage, then the routes
  stage, and each sends its request unless its prompt throws.
\<close>

definition stageRequests :: "runtime \<Rightarrow> jsval \<Rightarrow> effect list" where
  "stageRequests rt basicInfo =
     (if miscPrompt rt basicInfo = None then [] else [Call Misc])
     @ (if routesPrompt rt basicInfo = None then [] else [Call Routes])"

text \<open>
  Which promise settles first. A stage whose prompt throws returns a promise that is
  rejected at once, and its \<open>catch\<close> runs in the microtasks that follow the
  synchronous part of the handler, before any answer of the provider can arrive and, for
  the misc stage, before that of the routes stage. When both requests are under way, the
  order is the provider's.
\<close>

definition miscSettlesFirst :: "runtime \<Rightarrow> responses \<Rightarrow> jsval \<Rightarrow> bool" where
  "miscSettlesFirst rt rs basicInfo =
     (if miscPrompt rt basicInfo = None then True
      else if routesPrompt rt basicInfo = None then False
      else miscFirst rs)"

text \<open>
  Stage 2 of \<open>handleSearch\<close>: the requests are sent, the two promises settle in
  either order, then the callback of \<open>Promise.all\<close> runs.
\<close>

definition stage2 ::
    "runtime \<Rightarrow> responses \<Rightarrow> jsval \<Rightarrow> jsval \<Rightarrow> app \<times> storage \<Rightarrow> (app \<times> storage) \<times> effect list" where
  "stage2 rt rs basicInfo partial = (\<lambda>(st, store).
     if miscSettlesFirst rt rs basicInfo then
       (let (misc, st1, e1) = settleMisc rt basicInfo (miscR rs) st;
            (routes, st2, e2) = settleRoutes rt basicInfo (routesR rs) st1;
            (store', e3) = persistFinal rt partial misc routes store
        in ((st2, store'), stageRequests rt basicInfo @ e1 @ e2 @ e3))
     else
       (let (routes, st1, e1) = settleRoutes rt basicInfo (routesR rs) st;
            (misc, st2, e2) = settleMisc rt basicInfo (miscR rs) st1;
            (store', e3) = persistFinal rt partial misc routes store
        in ((st2, store'), stageRequests rt basicInfo @ e1 @ e2 @ e3)))"

text \<open>
  \<open>handleSearch\<close> after a cache miss: stage 1, awaited. A rejected basic stage or a
  TypeError while building \<open>partialTrail\<close> lands in the \<open>catch\<close> of the handler.
\<close>

definition searchMiss ::
    "runtime \<Rightarrow> responses \<Rightarrow> app \<times> storage \<Rightarrow> (app \<times> storage) \<times> effect list" where
  "searchMiss rt rs = (\<lambda>(st, store).
     case generateBasicTrailInfo rt (basicR rs) of
       Inl err \<Rightarrow> ((st\<lparr>isLoading := False\<rparr>, store), [Call Basic, Alert])
     | Inr basicInfo \<Rightarrow>
         (case partialTrail basicInfo of
            None \<Rightarrow> ((st\<lparr>isLoading := False\<rparr>, store), [Call Basic, Alert])
          | Some partial \<Rightarrow>
              (let st1 = st\<lparr>currentTrail := Some partial, view := Guide, isLoading := False\<rparr>;
                   (final, es) = stage2 rt rs basicInfo partial (st1, store)
               in (final, [Call Basic, Display (Some partial)] @ es))))"

definition handleSearch ::
    "runtime \<Rightarrow> responses \<Rightarrow> jstring \<Rightarrow> app \<times> storage \<Rightarrow> (app \<times> storage) \<times> effect list" where
  "handleSearch rt rs query = (\<lambda>(st0, store).
     let st = st0\<lparr>isLoading := True\<rparr> in
     case findLocalTrail rt store query of
       None \<Rightarrow> searchMiss rt rs (st, store)
     | Some cachedData \<Rightarrow>
         if truthy cachedData then
           ((st\<lparr>currentTrail := Some cachedData, view := Guide, isLoading := False\<rparr>, store),
            [Display (Some cachedData)])
         else searchMiss rt rs (st, store))"

section \<open>The seeded record\<close>

text \<open>
  The first effect of \<open>App\<close> runs once, when the component mounts: if the store has
  no (truthy) value under the key of the seeded record, it writes the mock record there.
\<close>

definition wugongKey :: jstring where
  "wugongKey = PREFIX @ [0x6B66, 0x529F, 0x5C71]"

definition mockCommunityData :: jsval where
  "mockCommunityData =
     (JObj
       [(js ''name'', JStr [0x6B66, 0x529F, 0x5C71]),
        (js ''location'', JStr [0x4E2D, 0x56FD, 0x6C5F, 0x897F, 0x7701, 0x840D, 0x4E61, 0x5E02]),
        (js ''highlight'', JStr [0x4E91, 0x4E2D, 0x8349, 0x539F, 0xFF0C, 0x6237, 0x5916, 0x5929, 0x5802, 0xFF0C, 0x534E, 0x4E1C, 0x671D, 0x5723, 0x4E4B, 0x8DEF, 0x3002]),
        (js ''difficulty'', JNum 3),
        (js ''duration'', JStr [0x0032, 0x002D, 0x0033, 0x5929]),
        (js ''length'', JStr [0x0032, 0x0035, 0x002D, 0x0033, 0x0030, 0x516C, 0x91CC]),
        (js ''elevationGain'', JStr [0x0031, 0x0036, 0x0030, 0x0030, 0x7C73]),
        (js ''description'', JStr [0x6B66, 0x529F, 0x5C71, 0x4EE5, 0x5176, 0x5E7F, 0x9614, 0x7684, 0x9AD8, 0x5C71, 0x8349, 0x7538, 0x548C, 0x58EE, 0x89C2, 0x7684, 0x4E91, 0x6D77, 0x65E5, 0x51FA, 0x800C, 0x95FB, 0x540D, 0x3002]),
        (js ''story'', JStr [0x5F53, 0x4F60, 0x7AD9, 0x5728, 0x91D1, 0x9876, 0x4E4B, 0x4E0A, 0xFF0C, 0x811A, 0x4E0B, 0x662F, 0x7FFB, 0x6D8C, 0x7684, 0x4E91, 0x6D77, 0xFF0C, 0x5934, 0x9876, 0x662F, 0x7480, 0x74A8, 0x7684, 0x661F, 0x7A7A, 0x002E, 0x002E, 0x002E]),
        (js ''routeSegments'', JArr
          [JObj
             [(js ''name'', JStr [0x6B63, 0x7A7F, 0x7ECF, 0x5178, 0x7EBF, 0x0020, 0x0028, 0x6C88, 0x5B50, 0x6751, 0x002D, 0x91D1, 0x9876, 0x0029]),
              (js ''distance'', JStr (js ''18km'')),
              (js ''time'', JStr (js ''8-10h'')),
              (js ''description'', JStr [0x6700, 0x7ECF, 0x5178, 0x7684, 0x767B, 0x5C71, 0x8DEF, 0x7EBF, 0xFF0C, 0x8DEF, 0x51B5, 0x6210, 0x719F, 0x3002]),
              (js ''landmarks'', JStr [0x6C88, 0x5B50, 0x6751, 0x0020, 0x002D, 0x003E, 0x0020, 0x4E5D, 0x9F99, 0x5C71, 0x0020, 0x002D, 0x003E, 0x0020, 0x94C1, 0x8E44, 0x5CF0, 0x0020, 0x002D, 0x003E, 0x0020, 0x91D1, 0x9876]),
              (js ''timeline'', JArr [])],
           JObj
             [(js ''name'', JStr [0x53CD, 0x7A7F, 0x7CBE, 0x534E, 0x7EBF]),
              (js ''distance'', JStr (js ''22km'')),
              (js ''time'', JStr [0x0032, 0x5929, 0x0031, 0x591C]),
              (js ''description'', JStr [0x9A74, 0x53CB, 0x6700, 0x7231, 0x8DEF, 0x7EBF, 0x3002]),
              (js ''landmarks'', JStr [0x9F99, 0x5C71, 0x6751, 0x0020, 0x002D, 0x003E, 0x0020, 0x53D1, 0x4E91, 0x754C, 0x0020, 0x002D, 0x003E, 0x0020, 0x7EDD, 0x671B, 0x5761, 0x0020, 0x002D, 0x003E, 0x0020, 0x91D1, 0x9876]),
              (js ''timeline'', JArr
                [JObj
                   [(js ''name'', JStr [0x9F99, 0x5C71, 0x6751]),
                    (js ''description'', JStr [0x8D77, 0x70B9])]])]]),
        (js ''gear'', JObj
          [(js ''essential'', JArr
             [JObj
                [(js ''item'', JStr [0x767B, 0x5C71, 0x6756]),
                 (js ''reason'', JStr [0x4FDD, 0x62A4, 0x819D, 0x76D6])]]),
           (js ''recommended'', JArr
             [JObj
                [(js ''item'', JStr [0x9632, 0x6652, 0x971C]),
                 (js ''reason'', JStr [0x7D2B, 0x5916, 0x7EBF, 0x5F3A])]])]),
        (js ''safetyTips'', JArr
          [JStr [0x96E8, 0x5929, 0x8DEF, 0x6ED1, 0x5EFA, 0x8BAE, 0x907F, 0x5F00, 0x3002]]),
        (js ''bestSeason'', JStr [0x0035, 0x6708, 0x002D, 0x0031, 0x0030, 0x6708]),
        (js ''communityTips'', JArr
          [JStr [0x5EFA, 0x8BAE, 0x53CD, 0x7A7F, 0xFF01]])])"

definition seedStore :: "runtime \<Rightarrow> storage \<Rightarrow> storage" where
  "seedStore rt store =
     (if \<not> (case getItem store wugongKey of None \<Rightarrow> False | Some v \<Rightarrow> v \<noteq> [])
      then setItem store wugongKey (JSON_stringify rt mockCommunityData)
      else store)"

section \<open>The saved-plans ledger\<close>

text \<open>
  \<open>a === b\<close> on names. Primitive values are strictly equal when they are the same
  value. Two objects are strictly equal only when they are one object; values of the
  model have no identity, and \<open>TrailData.name\<close> is declared a string, so the
  comparison of two objects or arrays is taken to fail.
\<close>

fun strictEq :: "jsval \<Rightarrow> jsval \<Rightarrow> bool" where
  "strictEq (JArr xs) b = False"
| "strictEq (JObj ps) b = False"
| "strictEq a b = (a = b)"

text \<open>
  \<open>savedTrails.find(t => t.name === trail.name)\<close>: the first entry the callback
  accepts, or \<open>undefined\<close> (\<open>Inr None\<close>); the entries after it are not looked at.
  A read of \<open>name\<close> on \<open>null\<close> throws.
\<close>

fun findByName :: "jsval list \<Rightarrow> jsval \<Rightarrow> error + jsval option" where
  "findByName [] trail = Inr None"
| "findByName (t # ts) trail =
     (case getProp t (js ''name'') of
        None \<Rightarrow> Inl TypeError
      | Some a \<Rightarrow>
          (case getProp trail (js ''name'') of
             None \<Rightarrow> Inl TypeError
           | Some b \<Rightarrow> if strictEq a b then Inr (Some t) else findByName ts trail))"

text \<open>\<open>prev.map(t => t.name === trail.name ? trail : t)\<close>.\<close>

fun mapByName :: "jsval list \<Rightarrow> jsval \<Rightarrow> error + jsval list" where
  "mapByName [] trail = Inr []"
| "mapByName (t # ts) trail =
     (case getProp t (js ''name'') of
        None \<Rightarrow> Inl TypeError
      | Some a \<Rightarrow>
          (case getProp trail (js ''name'') of
             None \<Rightarrow> Inl TypeError
           | Some b \<Rightarrow>
               (case mapByName ts trail of
                  Inl e \<Rightarrow> Inl e
                | Inr ts' \<Rightarrow> Inr ((if strictEq a b then trail else t) # ts'))))"

definition handleSaveTrail :: "jsval \<Rightarrow> app \<Rightarrow> error + app" where
  "handleSaveTrail trail st =
     (case findByName (savedTrails st) trail of
        Inl e \<Rightarrow> Inl e
      | Inr found \<Rightarrow>
          if \<not> (case found of None \<Rightarrow> False | Some t \<Rightarrow> truthy t)
          then Inr (st\<lparr>savedTrails := savedTrails st @ [trail]\<rparr>)
          else (case mapByName (savedTrails st) trail of
                  Inl e \<Rightarrow> Inl e
                | Inr ts \<Rightarrow> Inr (st\<lparr>savedTrails := ts\<rparr>)))"

text \<open>
  \<open>TrailData\<close> of \<open>types.ts\<close>, as far as the ledger reads it: an object whose
  \<open>name\<close> is a string.
\<close>

definition isTrailData :: "jsval \<Rightarrow> bool" where
  "isTrailData t =
     (case t of
        JObj ps \<Rightarrow> (case field ps (js ''name'') of JStr n \<Rightarrow> True | _ \<Rightarrow> False)
      | _ \<Rightarrow> False)"

definition trailName :: "jsval \<Rightarrow> jsval" where
  "trailName t = field (ownProps t) (js ''name'')"

section \<open>Notions of the specification\<close>

text \<open>
  A stored record: the value under a key of the namespace that parses to a value with a
  non-empty string \<open>name\<close>. Every other entry of the namespace is malformed.
\<close>

definition recordAt :: "runtime \<Rightarrow> storage \<Rightarrow> jstring \<Rightarrow> jsval option" where
  "recordAt rt store key =
     (if key \<noteq> [] \<and> prefix PREFIX key then
        (case getItem store key of
           None \<Rightarrow> None
         | Some json \<Rightarrow>
             (if json = [] then None
              else (case JSON_parse rt json of
                      None \<Rightarrow> None
                    | Some data \<Rightarrow>
                        (case getProp data (js ''name'') of
                           Some (JStr n) \<Rightarrow> if n \<noteq> [] \<and> truthy data then Some data else None
                         | _ \<Rightarrow> None))))
      else None)"

definition storedRecords :: "runtime \<Rightarrow> storage \<Rightarrow> jsval list" where
  "storedRecords rt store = List.map_filter (recordAt rt store) (keys store)"

text \<open>
  The bidirectional match of a normalized query against the lower-cased name of a
  record.
\<close>

definition nameMatches :: "runtime \<Rightarrow> jstring \<Rightarrow> jsval \<Rightarrow> bool" where
  "nameMatches rt normalizedQuery data =
     (case getProp data (js ''name'') of
        Some (JStr n) \<Rightarrow>
          sublist normalizedQuery (toLowerCase rt n) \<or> sublist (toLowerCase rt n) normalizedQuery
      | _ \<Rightarrow> False)"

text \<open>A value carries a field (an own property), and the value a field reads as.\<close>

definition hasField :: "jsval \<Rightarrow> jstring \<Rightarrow> bool" where
  "hasField v k \<longleftrightarrow> k \<in> fst ` set (ownProps v)"

definition getField :: "jsval \<Rightarrow> jstring \<Rightarrow> jsval" where
  "getField v k = field (ownProps v) k"

text \<open>The field names of \<open>partialTrail\<close>: those read from the basic result, and the placeholders.\<close>

definition basicFields :: "jstring list" where
  "basicFields =
     [js ''name'', js ''location'', js ''highlight'', js ''difficulty'', js ''duration'',
      js ''length'', js ''elevationGain'', js ''centerCoordinates'']"

definition miscRouteFields :: "jstring list" where
  "miscRouteFields =
     [js ''description'', js ''story'', js ''routeSegments'', js ''gear'', js ''safetyTips'',
      js ''bestSeason'', js ''communityTips'']"

text \<open>What a stage's promise resolves with, after its \<open>catch\<close>.\<close>

definition resolved :: "error + jsval \<Rightarrow> jsval" where
  "resolved r = (case r of Inr v \<Rightarrow> v | Inl e \<Rightarrow> JObj [])"

text \<open>
  The basic stage fails: the call rejects, or the response text is missing, empty, or
  (cleaned of its fences) not JSON.
\<close>

definition basicFails :: "runtime \<Rightarrow> outcome \<Rightarrow> bool" where
  "basicFails rt response =
     (case response of
        Rejected \<Rightarrow> True
      | Responded None \<Rightarrow> True
      | Responded (Some t) \<Rightarrow>
          t = [] \<or> JSON_parse rt (trim (removeAll (js ''```'') (removeAll (js ''```json'') t))) = None)"

definition providerCalls :: "effect list \<Rightarrow> effect list" where
  "providerCalls es = filter (\<lambda>e. case e of Call s \<Rightarrow> True | _ \<Rightarrow> False) es"

definition storeWrites :: "effect list \<Rightarrow> effect list" where
  "storeWrites es = filter (\<lambda>e. case e of StoreSet k v \<Rightarrow> True | _ \<Rightarrow> False) es"

definition alerts :: "effect list \<Rightarrow> effect list" where
  "alerts es = filter (\<lambda>e. case e of Alert \<Rightarrow> True | _ \<Rightarrow> False) es"

text \<open>A stage has settled in a trace: its callback has merged, or its \<open>catch\<close> has logged.\<close>

definition settled :: "stage \<Rightarrow> effect list \<Rightarrow> bool" where
  "settled s es = list_ex (\<lambda>e. case e of Merged s' r \<Rightarrow> s' = s | ConsoleError s' \<Rightarrow> s' = s | _ \<Rightarrow> False) es"

text \<open>
  A malformed entry: its value is missing or empty, does not parse, or parses to a value
  without a (truthy) \<open>name\<close>.
\<close>

definition malformed :: "runtime \<Rightarrow> storage \<Rightarrow> jstring \<Rightarrow> bool" where
  "malformed rt store key =
     (case getItem store key of
        None \<Rightarrow> True
      | Some json \<Rightarrow>
          json = []
          \<or> (case JSON_parse rt json of
                None \<Rightarrow> True
              | Some data \<Rightarrow>
                  \<not> truthy data
                  \<or> (case getProp data (js ''name'') of
                        None \<Rightarrow> True
                      | Some nm \<Rightarrow> \<not> truthy nm)))"

text \<open>The state \<open>App\<close> starts in (with no saved plans in the store).\<close>

definition initialApp :: app where
  "initialApp = \<lparr> view = Home, isLoading = False, currentTrail = None, savedTrails = [] \<rparr>"

section \<open>A runtime for evaluation\<close>

text \<open>
  An instance of the runtime, to evaluate the model on concrete inputs. What it parses,
  prints and converts is given by three finite tables: of texts with the values they
  denote, of values with their JSON texts, and of arrays and objects with the strings
  they convert to; a number converts to the text it prints as; \<open>toLowerCase\<close> maps
  the capitals of ASCII and leaves every other code unit. A text outside the first table
  does not parse; a value outside the second prints as the empty text, which no example
  reads; an array or object outside the third does not convert, and the only such value
  an example converts is \<open>{"toString": null}\<close>.
\<close>

definition asciiLower :: "16 word \<Rightarrow> 16 word" where
  "asciiLower c = (if 0x41 \<le> c \<and> c \<le> 0x5A then c + 0x20 else c)"

definition tableRuntime ::
    "(jstring \<times> jsval) list \<Rightarrow> (jsval \<times> jstring) list \<Rightarrow> (jsval \<times> jstring) list \<Rightarrow> runtime" where
  "tableRuntime parses prints converts =
     \<lparr> JSON_parse = map_of parses,
       JSON_stringify = (\<lambda>v. case map_of prints v of Some t \<Rightarrow> t | None \<Rightarrow> []),
       toLowerCase = map asciiLower,
       NumberToString = (\<lambda>r. case map_of prints (JNum r) of Some t \<Rightarrow> t | None \<Rightarrow> []),
       ToString = map_of converts \<rparr>"

text \<open>
  The JSON text of the seeded record, as \<open>JSON.stringify\<close> prints it (UTF-16 code
  units).
\<close>

definition mockText :: jstring where
  "mockText =
     [
      0x007B, 0x0022, 0x006E, 0x0061, 0x006D, 0x0065, 0x0022, 0x003A, 0x0022, 0x6B66, 0x529F, 0x5C71,
      0x0022, 0x002C, 0x0022, 0x006C, 0x006F, 0x0063, 0x0061, 0x0074, 0x0069, 0x006F, 0x006E, 0x0022,
      0x003A, 0x0022, 0x4E2D, 0x56FD, 0x6C5F, 0x897F, 0x7701, 0x840D, 0x4E61, 0x5E02, 0x0022, 0x002C,
      0x0022, 0x0068, 0x0069, 0x0067, 0x0068, 0x006C, 0x0069, 0x0067, 0x0068, 0x0074, 0x0022, 0x003A,
      0x0022, 0x4E91, 0x4E2D, 0x8349, 0x539F, 0xFF0C, 0x6237, 0x5916, 0x5929, 0x5802, 0xFF0C, 0x534E,
      0x4E1C, 0x671D, 0x5723, 0x4E4B, 0x8DEF, 0x3002, 0x0022, 0x002C, 0x0022, 0x0064, 0x0069, 0x0066,
      0x0066, 0x0069, 0x0063, 0x0075, 0x006C, 0x0074, 0x0079, 0x0022, 0x003A, 0x0033, 0x002C, 0x0022,
      0x0064, 0x0075, 0x0072, 0x0061, 0x0074, 0x0069, 0x006F, 0x006E, 0x0022, 0x003A, 0x0022, 0x0032,
      0x002D, 0x0033, 0x5929, 0x0022, 0x002C, 0x0022, 0x006C, 0x0065, 0x006E, 0x0067, 0x0074, 0x0068,
      0x0022, 0x003A, 0x0022, 0x0032, 0x0035, 0x002D, 0x0033, 0x0030, 0x516C, 0x91CC, 0x0022, 0x002C,
      0x0022, 0x0065, 0x006C, 0x0065, 0x0076, 0x0061, 0x0074, 0x0069, 0x006F, 0x006E, 0x0047, 0x0061,
      0x0069, 0x006E, 0x0022, 0x003A, 0x0022, 0x0031, 0x0036, 0x0030, 0x0030, 0x7C73, 0x0022, 0x002C,
      0x0022, 0x0064, 0x0065, 0x0073, 0x0063, 0x0072, 0x0069, 0x0070, 0x0074, 0x0069, 0x006F, 0x006E,
      0x0022, 0x003A, 0x0022, 0x6B66, 0x529F, 0x5C71, 0x4EE5, 0x5176, 0x5E7F, 0x9614, 0x7684, 0x9AD8,
      0x5C71, 0x8349, 0x7538, 0x548C, 0x58EE, 0x89C2, 0x7684, 0x4E91, 0x6D77, 0x65E5, 0x51FA, 0x800C,
      0x95FB, 0x540D, 0x3002, 0x0022, 0x002C, 0x0022, 0x0073, 0x0074, 0x006F, 0x0072, 0x0079, 0x0022,
      0x003A, 0x0022, 0x5F53, 0x4F60, 0x7AD9, 0x5728, 0x91D1, 0x9876, 0x4E4B, 0x4E0A, 0xFF0C, 0x811A,
      0x4E0B, 0x662F, 0x7FFB, 0x6D8C, 0x7684, 0x4E91, 0x6D77, 0xFF0C, 0x5934, 0x9876, 0x662F, 0x7480,
      0x74A8, 0x7684, 0x661F, 0x7A7A, 0x002E, 0x002E, 0x002E, 0x0022, 0x002C, 0x0022, 0x0072, 0x006F,
      0x0075, 0x0074, 0x0065, 0x0053, 0x0065, 0x0067, 0x006D, 0x0065, 0x006E, 0x0074, 0x0073, 0x0022,
      0x003A, 0x005B, 0x007B, 0x0022, 0x006E, 0x0061, 0x006D, 0x0065, 0x0022, 0x003A, 0x0022, 0x6B63,
      0x7A7F, 0x7ECF, 0x5178, 0x7EBF, 0x0020, 0x0028, 0x6C88, 0x5B50, 0x6751, 0x002D, 0x91D1, 0x9876,
      0x0029, 0x0022, 0x002C, 0x0022, 0x0064, 0x0069, 0x0073, 0x0074, 0x0061, 0x006E, 0x0063, 0x0065,
      0x0022, 0x003A, 0x0022, 0x0031, 0x0038, 0x006B, 0x006D, 0x0022, 0x002C, 0x0022, 0x0074, 0x0069,
      0x006D, 0x0065, 0x0022, 0x003A, 0x0022, 0x0038, 0x002D, 0x0031, 0x0030, 0x0068, 0x0022, 0x002C,
      0x0022, 0x0064, 0x0065, 0x0073, 0x0063, 0x0072, 0x0069, 0x0070, 0x0074, 0x0069, 0x006F, 0x006E,
      0x0022, 0x003A, 0x0022, 0x6700, 0x7ECF, 0x5178, 0x7684, 0x767B, 0x5C71, 0x8DEF, 0x7EBF, 0xFF0C,
      0x8DEF, 0x51B5, 0x6210, 0x719F, 0x3002, 0x0022, 0x002C, 0x0022, 0x006C, 0x0061, 0x006E, 0x0064,
      0x006D, 0x0061, 0x0072, 0x006B, 0x0073, 0x0022, 0x003A, 0x0022, 0x6C88, 0x5B50, 0x6751, 0x0020,
      0x002D, 0x003E, 0x0020, 0x4E5D, 0x9F99, 0x5C71, 0x0020, 0x002D, 0x003E, 0x0020, 0x94C1, 0x8E44,
      0x5CF0, 0x0020, 0x002D, 0x003E, 0x0020, 0x91D1, 0x9876, 0x0022, 0x002C, 0x0022, 0x0074, 0x0069,
      0x006D, 0x0065, 0x006C, 0x0069, 0x006E, 0x0065, 0x0022, 0x003A, 0x005B, 0x005D, 0x007D, 0x002C,
      0x007B, 0x0022, 0x006E, 0x0061, 0x006D, 0x0065, 0x0022, 0x003A, 0x0022, 0x53CD, 0x7A7F, 0x7CBE,
      0x534E, 0x7EBF, 0x0022, 0x002C, 0x0022, 0x0064, 0x0069, 0x0073, 0x0074, 0x0061, 0x006E, 0x0063,
      0x0065, 0x0022, 0x003A, 0x0022, 0x0032, 0x0032, 0x006B, 0x006D, 0x0022, 0x002C, 0x0022, 0x0074,
      0x0069, 0x006D, 0x0065, 0x0022, 0x003A, 0x0022, 0x0032, 0x5929, 0x0031, 0x591C, 0x0022, 0x002C,
      0x0022, 0x0064, 0x0065, 0x0073, 0x0063, 0x0072, 0x0069, 0x0070, 0x0074, 0x0069, 0x006F, 0x006E,
      0x0022, 0x003A, 0x0022, 0x9A74, 0x53CB, 0x6700, 0x7231, 0x8DEF, 0x7EBF, 0x3002, 0x0022, 0x002C,
      0x0022, 0x006C, 0x0061, 0x006E, 0x0064, 0x006D, 0x0061, 0x0072, 0x006B, 0x0073, 0x0022, 0x003A,
      0x0022, 0x9F99, 0x5C71, 0x6751, 0x0020, 0x002D, 0x003E, 0x0020, 0x53D1, 0x4E91, 0x754C, 0x0020,
      0x002D, 0x003E, 0x0020, 0x7EDD, 0x671B, 0x5761, 0x0020, 0x002D, 0x003E, 0x0020, 0x91D1, 0x9876,
      0x0022, 0x002C, 0x0022, 0x0074, 0x0069, 0x006D, 0x0065, 0x006C, 0x0069, 0x006E, 0x0065, 0x0022,
      0x003A, 0x005B, 0x007B, 0x0022, 0x006E, 0x0061, 0x006D, 0x0065, 0x0022, 0x003A, 0x0022, 0x9F99,
      0x5C71, 0x6751, 0x0022, 0x002C, 0x0022, 0x0064, 0x0065, 0x0073, 0x0063, 0x0072, 0x0069, 0x0070,
      0x0074, 0x0069, 0x006F, 0x006E, 0x0022, 0x003A, 0x0022, 0x8D77, 0x70B9, 0x0022, 0x007D, 0x005D,
      0x007D, 0x005D, 0x002C, 0x0022, 0x0067, 0x0065, 0x0061, 0x0072, 0x0022, 0x003A, 0x007B, 0x0022,
      0x0065, 0x0073, 0x0073, 0x0065, 0x006E, 0x0074, 0x0069, 0x0061, 0x006C, 0x0022, 0x003A, 0x005B,
      0x007B, 0x0022, 0x0069, 0x0074, 0x0065, 0x006D, 0x0022, 0x003A, 0x0022, 0x767B, 0x5C71, 0x6756,
      0x0022, 0x002C, 0x0022, 0x0072, 0x0065, 0x0061, 0x0073, 0x006F, 0x006E, 0x0022, 0x003A, 0x0022,
      0x4FDD, 0x62A4, 0x819D, 0x76D6, 0x0022, 0x007D, 0x005D, 0x002C, 0x0022, 0x0072, 0x0065, 0x0063,
      0x006F, 0x006D, 0x006D, 0x0065, 0x006E, 0x0064, 0x0065, 0x0064, 0x0022, 0x003A, 0x005B, 0x007B,
      0x0022, 0x0069, 0x0074, 0x0065, 0x006D, 0x0022, 0x003A, 0x0022, 0x9632, 0x6652, 0x971C, 0x0022,
      0x002C, 0x0022, 0x0072, 0x0065, 0x0061, 0x0073, 0x006F, 0x006E, 0x0022, 0x003A, 0x0022, 0x7D2B,
      0x5916, 0x7EBF, 0x5F3A, 0x0022, 0x007D, 0x005D, 0x007D, 0x002C, 0x0022, 0x0073, 0x0061, 0x0066,
      0x0065, 0x0074, 0x0079, 0x0054, 0x0069, 0x0070, 0x0073, 0x0022, 0x003A, 0x005B, 0x0022, 0x96E8,
      0x5929, 0x8DEF, 0x6ED1, 0x5EFA, 0x8BAE, 0x907F, 0x5F00, 0x3002, 0x0022, 0x005D, 0x002C, 0x0022,
      0x0062, 0x0065, 0x0073, 0x0074, 0x0053, 0x0065, 0x0061, 0x0073, 0x006F, 0x006E, 0x0022, 0x003A,
      0x0022, 0x0035, 0x6708, 0x002D, 0x0031, 0x0030, 0x6708, 0x0022, 0x002C, 0x0022, 0x0063, 0x006F,
      0x006D, 0x006D, 0x0075, 0x006E, 0x0069, 0x0074, 0x0079, 0x0054, 0x0069, 0x0070, 0x0073, 0x0022,
      0x003A, 0x005B, 0x0022, 0x5EFA, 0x8BAE, 0x53CD, 0x7A7F, 0xFF01, 0x0022, 0x005D, 0x007D]"

text \<open>The runtime of the examples, with the texts and values they use.\<close>

definition exampleRuntime :: runtime where
  \<open>exampleRuntime =
     tableRuntime
       [(js ''{}'', JObj []),
        (js ''{"name":""}'', JObj [(js ''name'', JStr [])]),
        (js ''{"name":"A"}'', JObj [(js ''name'', JStr (js ''A''))]),
        (js ''{"name":"B"}'', JObj [(js ''name'', JStr (js ''B''))]),
        (js ''{"name":"Alps"}'', JObj [(js ''name'', JStr (js ''Alps''))]),
        (js ''{"story":"S"}'', JObj [(js ''story'', JStr (js ''S''))]),
        (js ''{"routeSegments":[]}'', JObj [(js ''routeSegments'', JArr [])]),
        (js ''{"routeSegments":[{"name":"R"}]}'',
           JObj [(js ''routeSegments'', JArr [JObj [(js ''name'', JStr (js ''R''))]])]),
        (js ''{"name":{"toString":null}}'',
           JObj [(js ''name'', JObj [(js ''toString'', JNull)])]),
        (mockText, mockCommunityData)]
       [(mockCommunityData, mockText)]
       []\<close>

text \<open>A provider that rejects every request, and one that answers with given texts.\<close>

definition rejecting :: responses where
  "rejecting = \<lparr> basicR = Rejected, miscR = Rejected, routesR = Rejected, miscFirst = True \<rparr>"

definition answering :: "jstring \<Rightarrow> outcome \<Rightarrow> outcome \<Rightarrow> bool \<Rightarrow> responses" where
  "answering basicText misc routes first =
     \<lparr> basicR = Responded (Some basicText), miscR = misc, routesR = routes, miscFirst = first \<rparr>"

text \<open>The keys of the store writes of a run, in order.\<close>

definition writtenKeys :: "effect list \<Rightarrow> jstring list" where
  "writtenKeys es = concat (map (\<lambda>e. case e of StoreSet k v \<Rightarrow> [k] | _ \<Rightarrow> []) es)"

section \<open>Properties of the object spread\<close>

lemma keys_assign: "fst ` set (assign a b) = fst ` set a \<union> fst ` set b"
  unfolding assign_def
proof (induction b arbitrary: a)
  case Nil
  show ?case by simp
next
  case (Cons kv b)
  obtain k v where kv: "kv = (k, v)" by (cases kv)
  show ?case by (simp add: kv Cons.IH dom_update)
qed

lemma map_of_assign_other:
  "k \<notin> fst ` set b \<Longrightarrow> map_of (assign a b) k = map_of a k"
  unfolding assign_def
proof (induction b arbitrary: a)
  case Nil
  show ?case by simp
next
  case (Cons kv b)
  obtain k' v where kv: "kv = (k', v)" by (cases kv)
  from Cons.prems have "k \<noteq> k'" "k \<notin> fst ` set b" by (auto simp: kv)
  then show ?case by (simp add: kv Cons.IH update_conv')
qed

lemma field_assign_other:
  "k \<notin> fst ` set b \<Longrightarrow> field (assign a b) k = field a k"
  by (simp add: field_def map_of_assign_other)


lemma update_fresh: "k \<notin> fst ` set a \<Longrightarrow> AList.update k v a = a @ [(k, v)]"
  by (induction a) auto

lemma assign_distinct_append:
  "distinct (map fst (a @ ps)) \<Longrightarrow> assign a ps = a @ ps"
  unfolding assign_def
proof (induction ps arbitrary: a)
  case Nil
  show ?case by simp
next
  case (Cons kv ps)
  obtain k v where kv: "kv = (k, v)" by (cases kv)
  from Cons.prems have fresh: "k \<notin> fst ` set a" by (auto simp: kv)
  from Cons.prems have "distinct (map fst ((a @ [(k, v)]) @ ps))" by (simp add: kv)
  from Cons.IH[OF this] show ?case by (simp add: kv update_fresh[OF fresh])
qed

lemma assign_Nil_distinct: "distinct (map fst ps) \<Longrightarrow> assign [] ps = ps"
  using assign_distinct_append[of "[]" ps] by simp




lemma truthy_spread2 [simp]: "truthy (spread2 a b)"
  by (simp add: spread2_def)

section \<open>The fuzzy lookup\<close>

lemma scanKeys_Cons:
  "scanKeys rt store nq (key # rest) =
     (case recordAt rt store key of
        None \<Rightarrow> scanKeys rt store nq rest
      | Some d \<Rightarrow> if nameMatches rt nq d then Some d else scanKeys rt store nq rest)"
  by (auto simp: tryEntry_def recordAt_def nameMatches_def startsWith_def includesStr_def Let_def
      split: option.splits jsval.splits sum.splits)

lemma scanKeys_find:
  "scanKeys rt store nq ks = List.find (nameMatches rt nq) (List.map_filter (recordAt rt store) ks)"
proof (induction ks)
  case Nil
  show ?case by simp
next
  case (Cons key rest)
  show ?case
    by (simp only: scanKeys_Cons Cons.IH) (simp split: option.splits)
qed

lemma findLocalTrail_find:
  "findLocalTrail rt store query =
     List.find (nameMatches rt (normalize rt query)) (storedRecords rt store)"
  by (simp add: findLocalTrail_def storedRecords_def scanKeys_find)

lemma recordAt_truthy: "recordAt rt store key = Some d \<Longrightarrow> truthy d"
  by (auto simp: recordAt_def split: option.splits if_splits jsval.splits)

lemma storedRecords_truthy: "d \<in> set (storedRecords rt store) \<Longrightarrow> truthy d"
  by (auto simp: storedRecords_def List.map_filter_def dest: recordAt_truthy)

lemma findLocalTrail_truthy: "findLocalTrail rt store query = Some d \<Longrightarrow> truthy d"
  by (auto simp: findLocalTrail_find find_Some_iff intro!: storedRecords_truthy nth_mem)

lemma handleSearch_hit:
  "findLocalTrail rt store query = Some d \<Longrightarrow>
   handleSearch rt rs query (st, store) =
     ((st\<lparr>currentTrail := Some d, view := Guide, isLoading := False\<rparr>, store),
      [Display (Some d)])"
  by (simp add: handleSearch_def findLocalTrail_truthy)

lemma malformed_recordAt: "malformed rt store key \<Longrightarrow> recordAt rt store key = None"
  by (auto simp: malformed_def recordAt_def split: option.splits jsval.splits)

lemma tryEntry_error_recordAt:
  "tryEntry rt store nq key = Inl e \<Longrightarrow> recordAt rt store key = None"
  by (auto simp: tryEntry_def recordAt_def Let_def split: option.splits jsval.splits if_splits)

lemma recordAt_SomeD:
  "recordAt rt store key = Some d \<Longrightarrow>
     prefix PREFIX key \<and> \<not> malformed rt store key
     \<and> (\<exists>json. getItem store key = Some json \<and> JSON_parse rt json = Some d)"
  by (auto simp: malformed_def recordAt_def split: option.splits jsval.splits if_splits)

lemma recordAt_name:
  "recordAt rt store key = Some d \<Longrightarrow> \<exists>n. getProp d (js ''name'') = Some (JStr n) \<and> n \<noteq> []"
  by (auto simp: recordAt_def split: option.splits jsval.splits if_splits)

lemma storedRecords_D:
  "d \<in> set (storedRecords rt store) \<Longrightarrow> \<exists>key\<in>set (keys store). recordAt rt store key = Some d"
  by (auto simp: storedRecords_def List.map_filter_def)

lemma trim_whitespace:
  assumes "\<forall>c\<in>set s. isWhiteSpace c"
  shows "trim s = []"
proof -
  from assms have e: "dropWhile isWhiteSpace s = []" by simp
  show ?thesis unfolding trim_def e by simp
qed

lemma find_all:
  "(\<And>x. x \<in> set xs \<Longrightarrow> P x) \<Longrightarrow> List.find P xs = (case xs of [] \<Rightarrow> None | x # ys \<Rightarrow> Some x)"
  by (cases xs) auto

lemma storedRecords_match_empty:
  assumes "d \<in> set (storedRecords rt store)"
  shows "nameMatches rt [] d"
proof -
  from storedRecords_D[OF assms] obtain key where "recordAt rt store key = Some d" by blast
  from recordAt_name[OF this] obtain n where "getProp d (js ''name'') = Some (JStr n)" by blast
  then show ?thesis by (simp add: nameMatches_def)
qed

text \<open>
  Claim C8 (fault tolerance of the fuzzy scan). For every store: a key whose entry is
  malformed (value missing or empty, not parseable, or without a name) is skipped and the
  scan goes on with the remaining keys; so is a key whose \<open>try\<close> block throws, the
  exception being caught inside the loop; and a record the lookup returns is the parsed
  value of an entry of the namespace that is not malformed.
\<close>

theorem fuzzy_scan_fault_tolerance:
  "(malformed rt store key \<longrightarrow> scanKeys rt store nq (key # rest) = scanKeys rt store nq rest)
   \<and> (\<forall>e. tryEntry rt store nq key = Inl e \<longrightarrow>
            scanKeys rt store nq (key # rest) = scanKeys rt store nq rest)
   \<and> (findLocalTrail rt store query = Some d \<longrightarrow>
        (\<exists>k\<in>set (keys store). prefix PREFIX k \<and> \<not> malformed rt store k
            \<and> (\<exists>json. getItem store k = Some json \<and> JSON_parse rt json = Some d)))"
proof (intro conjI impI allI)
  assume "malformed rt store key"
  then show "scanKeys rt store nq (key # rest) = scanKeys rt store nq rest"
    by (simp only: scanKeys_Cons malformed_recordAt) simp
next
  fix e assume "tryEntry rt store nq key = Inl e"
  then show "scanKeys rt store nq (key # rest) = scanKeys rt store nq rest"
    by (simp only: scanKeys_Cons tryEntry_error_recordAt) simp
next
  assume "findLocalTrail rt store query = Some d"
  then have "d \<in> set (storedRecords rt store)"
    by (auto simp: findLocalTrail_find find_Some_iff)
  then obtain k where "k \<in> set (keys store)" "recordAt rt store k = Some d"
    using storedRecords_D by blast
  then show "\<exists>k\<in>set (keys store). prefix PREFIX k \<and> \<not> malformed rt store k
            \<and> (\<exists>json. getItem store k = Some json \<and> JSON_parse rt json = Some d)"
    using recordAt_SomeD by blast
qed

text \<open>
  Claim C3 (cache precedence), as amended. If the normalized query is contained in, or
  contains, the lower-cased name of some stored record (an entry of the namespace that
  parses to a value with a non-empty string name), then \<open>handleSearch\<close> shows the
  first such record in the enumeration order of the store, leaves the store as it is,
  and sends no request to the content provider.
\<close>

theorem cache_precedence:
  "list_ex (nameMatches rt (normalize rt query)) (storedRecords rt store) \<Longrightarrow>
   \<exists>d. List.find (nameMatches rt (normalize rt query)) (storedRecords rt store) = Some d
     \<and> findLocalTrail rt store query = Some d
     \<and> handleSearch rt rs query (st, store) =
         ((st\<lparr>currentTrail := Some d, view := Guide, isLoading := False\<rparr>, store),
          [Display (Some d)])
     \<and> providerCalls (snd (handleSearch rt rs query (st, store))) = []"
proof -
  assume "list_ex (nameMatches rt (normalize rt query)) (storedRecords rt store)"
  then obtain d where d: "List.find (nameMatches rt (normalize rt query)) (storedRecords rt store) = Some d"
    by (cases "List.find (nameMatches rt (normalize rt query)) (storedRecords rt store)")
       (auto simp: find_None_iff list_ex_iff)
  then have f: "findLocalTrail rt store query = Some d"
    by (simp add: findLocalTrail_find)
  show ?thesis
    using d f by (simp add: handleSearch_hit[OF f] providerCalls_def)
qed

text \<open>
  Claim C10 (empty query), as amended. For a query of white space only (which
  \<open>toLowerCase\<close> leaves as it is), the normalized query is empty; the lookup returns
  the first stored record (entry of the namespace with a non-empty string name) in
  enumeration order, if there is one, and then the content provider is not called.
\<close>

theorem empty_query_lookup:
  assumes "\<forall>c\<in>set query. isWhiteSpace c" and "toLowerCase rt query = query"
  shows "normalize rt query = []
     \<and> findLocalTrail rt store query = (case storedRecords rt store of [] \<Rightarrow> None | d # ds \<Rightarrow> Some d)
     \<and> (storedRecords rt store \<noteq> [] \<longrightarrow>
          providerCalls (snd (handleSearch rt rs query (st, store))) = [])"
proof -
  have n: "normalize rt query = []"
    using assms by (simp add: normalize_def trim_whitespace)
  have f: "findLocalTrail rt store query = (case storedRecords rt store of [] \<Rightarrow> None | d # ds \<Rightarrow> Some d)"
    unfolding findLocalTrail_find n by (rule find_all) (rule storedRecords_match_empty)
  have "providerCalls (snd (handleSearch rt rs query (st, store))) = []"
    if "storedRecords rt store \<noteq> []"
  proof -
    from that f obtain d where "findLocalTrail rt store query = Some d"
      by (cases "storedRecords rt store") auto
    from handleSearch_hit[OF this] show ?thesis by (simp add: providerCalls_def)
  qed
  with n f show ?thesis by blast
qed

section \<open>The search after a cache miss\<close>

lemma getProp_None_iff: "getProp v k = None \<longleftrightarrow> v = JUndefined \<or> v = JNull"
  by (cases v) simp_all

lemma partialTrail_None_iff: "partialTrail v = None \<longleftrightarrow> v = JUndefined \<or> v = JNull"
  by (cases v) (simp_all add: partialTrail_def)

lemma map_of_assign_distinct:
  "distinct (map fst b) \<Longrightarrow>
   map_of (assign a b) x = (case map_of b x of Some w \<Rightarrow> Some w | None \<Rightarrow> map_of a x)"
  unfolding assign_def
proof (induction b arbitrary: a)
  case Nil
  show ?case by simp
next
  case (Cons kv b)
  obtain k v where kv: "kv = (k, v)" by (cases kv)
  from Cons.prems have d: "distinct (map fst b)" and k: "map_of b k = None"
    by (auto simp: kv map_of_eq_None_iff)
  show ?case
    using k by (auto simp: kv Cons.IH[OF d] update_conv' split: option.splits)
qed

lemma spread3_empty: "spread3 a b (JObj []) = spread2 a b"
  by (simp add: spread3_def spread2_def assign_def)

lemma hasField_spread3:
  "hasField (spread3 a b c) k \<longleftrightarrow> hasField a k \<or> hasField b k \<or> hasField c k"
  by (simp add: hasField_def spread3_def keys_assign)

lemma getField_spread3_base:
  "distinct (map fst (ownProps a)) \<Longrightarrow> \<not> hasField b k \<Longrightarrow> \<not> hasField c k \<Longrightarrow>
   getField (spread3 a b c) k = getField a k"
  by (simp add: hasField_def getField_def spread3_def field_assign_other assign_Nil_distinct)


lemma getField_spread2_over:
  "distinct (map fst (ownProps b)) \<Longrightarrow> hasField b k \<Longrightarrow>
   getField (spread2 a b) k = getField b k"
  by (auto simp: hasField_def getField_def spread2_def field_def map_of_assign_distinct
      map_of_eq_None_iff split: option.splits)

lemma partialTrail_shape:
  assumes "partialTrail b = Some p"
  shows "distinct (map fst (ownProps p))"
    and "\<forall>k\<in>set basicFields. getProp b k = Some (getField p k)"
    and "\<forall>k\<in>set miscRouteFields. getField p k = JUndefined"
    and "\<forall>k. hasField p k \<longleftrightarrow> k \<in> set (basicFields @ miscRouteFields)"
    and "truthy p"
proof -
  from assms have nn: "b \<noteq> JUndefined" "b \<noteq> JNull"
    using partialTrail_None_iff[of b] by auto
  then obtain name location highlight difficulty duration len elevationGain centerCoordinates
    where r: "getProp b (js ''name'') = Some name" "getProp b (js ''location'') = Some location"
      "getProp b (js ''highlight'') = Some highlight" "getProp b (js ''difficulty'') = Some difficulty"
      "getProp b (js ''duration'') = Some duration" "getProp b (js ''length'') = Some len"
      "getProp b (js ''elevationGain'') = Some elevationGain"
      "getProp b (js ''centerCoordinates'') = Some centerCoordinates"
    using getProp_None_iff[of b] by (metis not_Some_eq)
  from assms have p: "p = JObj
       [(js ''name'', name),
        (js ''location'', location),
        (js ''highlight'', highlight),
        (js ''difficulty'', difficulty),
        (js ''duration'', duration),
        (js ''length'', len),
        (js ''elevationGain'', elevationGain),
        (js ''centerCoordinates'', centerCoordinates),
        (js ''description'', JUndefined),
        (js ''story'', JUndefined),
        (js ''routeSegments'', JUndefined),
        (js ''gear'', JUndefined),
        (js ''safetyTips'', JUndefined),
        (js ''bestSeason'', JUndefined),
        (js ''communityTips'', JUndefined)]"
    unfolding partialTrail_def r by simp
  show "distinct (map fst (ownProps p))" unfolding p by (simp add: js_def)
  show "\<forall>k\<in>set basicFields. getProp b k = Some (getField p k)"
    unfolding p basicFields_def using r by (simp add: getField_def field_def js_def)
  show "\<forall>k\<in>set miscRouteFields. getField p k = JUndefined"
    unfolding p miscRouteFields_def by (simp add: getField_def field_def js_def)
  show "\<forall>k. hasField p k \<longleftrightarrow> k \<in> set (basicFields @ miscRouteFields)"
    unfolding p miscRouteFields_def basicFields_def by (auto simp: hasField_def)
  show "truthy p" unfolding p by simp
qed

lemma basicFails_iff:
  "basicFails rt response \<longleftrightarrow> (\<exists>e. generateBasicTrailInfo rt response = Inl e)"
  by (auto simp: basicFails_def generateBasicTrailInfo_def safeParseJSON_def Let_def
      split: outcome.splits option.splits)

lemma handleSearch_miss:
  "findLocalTrail rt store query = None \<Longrightarrow>
   handleSearch rt rs query (st, store) = searchMiss rt rs (st\<lparr>isLoading := True\<rparr>, store)"
  by (simp add: handleSearch_def)

lemma searchMiss_failure:
  "generateBasicTrailInfo rt (basicR rs) = Inl e \<Longrightarrow>
   searchMiss rt rs (st, store) = ((st\<lparr>isLoading := False\<rparr>, store), [Call Basic, Alert])"
  by (simp add: searchMiss_def)



lemma miscPrompt_None: "miscPrompt rt b = None \<Longrightarrow> generateTrailMisc rt b response = Inl TypeError"
  by (simp add: generateTrailMisc_def)

lemma routesPrompt_None: "routesPrompt rt b = None \<Longrightarrow> generateTrailRoutes rt b response = Inl TypeError"
  by (simp add: generateTrailRoutes_def)


lemma settleMisc_Inl:
  "generateTrailMisc rt b response = Inl e \<Longrightarrow>
   settleMisc rt b response st = (JObj [], st, [ConsoleError Misc])"
  by (simp add: settleMisc_def)


lemma settleRoutes_Inl:
  "generateTrailRoutes rt b response = Inl e \<Longrightarrow>
   settleRoutes rt b response st = (JObj [], st, [ConsoleError Routes])"
  by (simp add: settleRoutes_def)

lemma stage2_shape:
  "\<exists>st' e1 e2.
     stage2 rt rs b p (st, store) =
       ((st', fst (persistFinal rt p (resolved (generateTrailMisc rt b (miscR rs)))
                     (resolved (generateTrailRoutes rt b (routesR rs))) store)),
        stageRequests rt b @ [e1, e2]
        @ snd (persistFinal rt p (resolved (generateTrailMisc rt b (miscR rs)))
                 (resolved (generateTrailRoutes rt b (routesR rs))) store))
     \<and> settled Misc [e1, e2] \<and> settled Routes [e1, e2]
     \<and> alerts [e1, e2] = [] \<and> storeWrites [e1, e2] = [] \<and> providerCalls [e1, e2] = []
     \<and> ((\<exists>err. generateTrailRoutes rt b (routesR rs) = Inl err) \<longrightarrow>
            ConsoleError Routes \<in> set [e1, e2])
     \<and> ((\<exists>err. generateTrailMisc rt b (miscR rs) = Inl err) \<longrightarrow>
            ConsoleError Misc \<in> set [e1, e2])"
proof (cases "miscSettlesFirst rt rs b")
  case True
  show ?thesis
    by (cases "generateTrailMisc rt b (miscR rs)"; cases "generateTrailRoutes rt b (routesR rs)")
       (simp_all add: stage2_def settleMisc_def settleRoutes_def
          resolved_def Let_def settled_def alerts_def storeWrites_def providerCalls_def
          True split_beta)
next
  case False
  show ?thesis
    by (cases "generateTrailMisc rt b (miscR rs)"; cases "generateTrailRoutes rt b (routesR rs)")
       (simp_all add: stage2_def settleMisc_def settleRoutes_def
          resolved_def Let_def settled_def alerts_def storeWrites_def providerCalls_def
          False split_beta)
qed

lemma searchMiss_success:
  assumes "generateBasicTrailInfo rt (basicR rs) = Inr b" and "partialTrail b = Some p"
  shows "\<exists>st' e1 e2.
     searchMiss rt rs (st, store) =
       ((st', fst (persistFinal rt p (resolved (generateTrailMisc rt b (miscR rs)))
                     (resolved (generateTrailRoutes rt b (routesR rs))) store)),
        [Call Basic, Display (Some p)] @ stageRequests rt b @ [e1, e2]
        @ snd (persistFinal rt p (resolved (generateTrailMisc rt b (miscR rs)))
                 (resolved (generateTrailRoutes rt b (routesR rs))) store))
     \<and> settled Misc [e1, e2] \<and> settled Routes [e1, e2]
     \<and> alerts [e1, e2] = [] \<and> storeWrites [e1, e2] = [] \<and> providerCalls [e1, e2] = []
     \<and> ((\<exists>err. generateTrailRoutes rt b (routesR rs) = Inl err) \<longrightarrow>
            ConsoleError Routes \<in> set [e1, e2])
     \<and> ((\<exists>err. generateTrailMisc rt b (miscR rs) = Inl err) \<longrightarrow>
            ConsoleError Misc \<in> set [e1, e2])"
proof -
  from stage2_shape[of rt rs b p
      "st\<lparr>currentTrail := Some p, view := Guide, isLoading := False\<rparr>" store]
  obtain st' e1 e2 where
    s: "stage2 rt rs b p (st\<lparr>currentTrail := Some p, view := Guide, isLoading := False\<rparr>, store) =
       ((st', fst (persistFinal rt p (resolved (generateTrailMisc rt b (miscR rs)))
                     (resolved (generateTrailRoutes rt b (routesR rs))) store)),
        stageRequests rt b @ [e1, e2]
        @ snd (persistFinal rt p (resolved (generateTrailMisc rt b (miscR rs)))
                 (resolved (generateTrailRoutes rt b (routesR rs))) store))"
    and e: "settled Misc [e1, e2] \<and> settled Routes [e1, e2]
     \<and> alerts [e1, e2] = [] \<and> storeWrites [e1, e2] = [] \<and> providerCalls [e1, e2] = []
     \<and> ((\<exists>err. generateTrailRoutes rt b (routesR rs) = Inl err) \<longrightarrow>
            ConsoleError Routes \<in> set [e1, e2])
     \<and> ((\<exists>err. generateTrailMisc rt b (miscR rs) = Inl err) \<longrightarrow>
            ConsoleError Misc \<in> set [e1, e2])"
    by blast
  have "searchMiss rt rs (st, store) =
       ((st', fst (persistFinal rt p (resolved (generateTrailMisc rt b (miscR rs)))
                     (resolved (generateTrailRoutes rt b (routesR rs))) store)),
        [Call Basic, Display (Some p)] @ stageRequests rt b @ [e1, e2]
        @ snd (persistFinal rt p (resolved (generateTrailMisc rt b (miscR rs)))
                 (resolved (generateTrailRoutes rt b (routesR rs))) store))"
    by (simp add: searchMiss_def assms s)
  with e show ?thesis by blast
qed

lemma persistFinal_Some:
  "template rt (getField (spread3 p m r) (js ''name'')) = Some n \<Longrightarrow>
   persistFinal rt p m r store =
     (setItem store (PREFIX @ n) (JSON_stringify rt (spread3 p m r)),
      [StoreSet (PREFIX @ n) (JSON_stringify rt (spread3 p m r))])"
  by (simp add: persistFinal_def getField_def Let_def)

lemma persistFinal_None:
  "template rt (getField (spread3 p m r) (js ''name'')) = None \<Longrightarrow>
   persistFinal rt p m r store = (store, [UnhandledRejection])"
  by (simp add: persistFinal_def getField_def Let_def)

lemma stageRequests_plain:
  "storeWrites (stageRequests rt b) = []" "alerts (stageRequests rt b) = []"
  by (simp_all add: stageRequests_def storeWrites_def alerts_def)

lemma settled_append: "settled s (xs @ ys) \<longleftrightarrow> settled s xs \<or> settled s ys"
  by (simp add: settled_def)

lemma storeWrites_append: "storeWrites (xs @ ys) = storeWrites xs @ storeWrites ys"
  by (simp add: storeWrites_def)

lemma alerts_append: "alerts (xs @ ys) = alerts xs @ alerts ys"
  by (simp add: alerts_def)

lemma miss_run:
  assumes "findLocalTrail rt store query = None"
    and "generateBasicTrailInfo rt (basicR rs) = Inr b"
    and "partialTrail b = Some p"
  shows "\<exists>st' rest.
     handleSearch rt rs query (st, store) =
       ((st', fst (persistFinal rt p (resolved (generateTrailMisc rt b (miscR rs)))
                     (resolved (generateTrailRoutes rt b (routesR rs))) store)),
        ([Call Basic, Display (Some p)] @ rest)
        @ snd (persistFinal rt p (resolved (generateTrailMisc rt b (miscR rs)))
                 (resolved (generateTrailRoutes rt b (routesR rs))) store))
     \<and> storeWrites ([Call Basic, Display (Some p)] @ rest) = []
     \<and> alerts ([Call Basic, Display (Some p)] @ rest) = []
     \<and> settled Misc ([Call Basic, Display (Some p)] @ rest)
     \<and> settled Routes ([Call Basic, Display (Some p)] @ rest)
     \<and> ((\<exists>err. generateTrailRoutes rt b (routesR rs) = Inl err) \<longrightarrow>
            ConsoleError Routes \<in> set ([Call Basic, Display (Some p)] @ rest))
     \<and> ((\<exists>err. generateTrailMisc rt b (miscR rs) = Inl err) \<longrightarrow>
            ConsoleError Misc \<in> set ([Call Basic, Display (Some p)] @ rest))"
proof -
  from searchMiss_success[OF assms(2,3), of "st\<lparr>isLoading := True\<rparr>" store]
  obtain st' e1 e2 where
    s: "searchMiss rt rs (st\<lparr>isLoading := True\<rparr>, store) =
       ((st', fst (persistFinal rt p (resolved (generateTrailMisc rt b (miscR rs)))
                     (resolved (generateTrailRoutes rt b (routesR rs))) store)),
        [Call Basic, Display (Some p)] @ stageRequests rt b @ [e1, e2]
        @ snd (persistFinal rt p (resolved (generateTrailMisc rt b (miscR rs)))
                 (resolved (generateTrailRoutes rt b (routesR rs))) store))"
    and e: "settled Misc [e1, e2]" "settled Routes [e1, e2]"
      "alerts [e1, e2] = []" "storeWrites [e1, e2] = []"
      "(\<exists>err. generateTrailRoutes rt b (routesR rs) = Inl err) \<longrightarrow>
            ConsoleError Routes \<in> set [e1, e2]"
      "(\<exists>err. generateTrailMisc rt b (miscR rs) = Inl err) \<longrightarrow>
            ConsoleError Misc \<in> set [e1, e2]"
    by blast
  let ?rest = "stageRequests rt b @ [e1, e2]"
  have 1: "handleSearch rt rs query (st, store) =
       ((st', fst (persistFinal rt p (resolved (generateTrailMisc rt b (miscR rs)))
                     (resolved (generateTrailRoutes rt b (routesR rs))) store)),
        ([Call Basic, Display (Some p)] @ ?rest)
        @ snd (persistFinal rt p (resolved (generateTrailMisc rt b (miscR rs)))
                 (resolved (generateTrailRoutes rt b (routesR rs))) store))"
    by (simp add: handleSearch_miss[OF assms(1)] s)
  have 2: "storeWrites ([Call Basic, Display (Some p)] @ ?rest) = []"
    using e(4) stageRequests_plain(1)[of rt b]
    by (simp only: storeWrites_append) (simp add: storeWrites_def)
  have 3: "alerts ([Call Basic, Display (Some p)] @ ?rest) = []"
    using e(3) stageRequests_plain(2)[of rt b]
    by (simp only: alerts_append) (simp add: alerts_def)
  have 4: "settled Misc ([Call Basic, Display (Some p)] @ ?rest)"
    "settled Routes ([Call Basic, Display (Some p)] @ ?rest)"
    using e(1,2) by (simp_all only: settled_append) simp_all
  have 5: "(\<exists>err. generateTrailRoutes rt b (routesR rs) = Inl err) \<longrightarrow>
            ConsoleError Routes \<in> set ([Call Basic, Display (Some p)] @ ?rest)"
    "(\<exists>err. generateTrailMisc rt b (miscR rs) = Inl err) \<longrightarrow>
            ConsoleError Misc \<in> set ([Call Basic, Display (Some p)] @ ?rest)"
    using e(5,6) by auto
  from 1 2 3 4 5 show ?thesis by blast
qed

lemma writes_last:
  "storeWrites pre = [] \<Longrightarrow> storeWrites (pre @ [StoreSet k v]) = [StoreSet k v]"
  by (simp add: storeWrites_def)

lemma writes_unhandled:
  "storeWrites pre = [] \<Longrightarrow> storeWrites (pre @ [UnhandledRejection]) = []"
  by (simp add: storeWrites_def)

text \<open>
  Claim C5 (the basic stage is terminal). After a cache miss, a basic stage that fails
  (the call rejects, or the response text is missing, empty or not JSON) ends the
  request: the run consists of the request and the alert, no record is shown, the view
  and the current record stay as they were, and the store is unchanged. No other stage
  can abort the request: once the basic stage has supplied its record, that record is
  shown, no alert is raised and both later stages settle, whatever they do. The final
  record is then written, unless the conversion of its name to a string throws in the
  callback of \<open>Promise.all\<close>.
\<close>

theorem basic_failure_terminal:
  assumes "findLocalTrail rt store query = None"
  shows "(basicFails rt (basicR rs) \<longrightarrow>
            handleSearch rt rs query (st, store)
              = ((st\<lparr>isLoading := False\<rparr>, store), [Call Basic, Alert]))
       \<and> (\<forall>b p. generateBasicTrailInfo rt (basicR rs) = Inr b \<and> partialTrail b = Some p \<longrightarrow>
              alerts (snd (handleSearch rt rs query (st, store))) = []
              \<and> Display (Some p) \<in> set (snd (handleSearch rt rs query (st, store)))
              \<and> settled Misc (snd (handleSearch rt rs query (st, store)))
              \<and> settled Routes (snd (handleSearch rt rs query (st, store)))
              \<and> (storeWrites (snd (handleSearch rt rs query (st, store))) = [] \<longleftrightarrow>
                   template rt (getField (spread3 p (resolved (generateTrailMisc rt b (miscR rs)))
                       (resolved (generateTrailRoutes rt b (routesR rs)))) (js ''name'')) = None))"
proof (rule conjI)
  show "basicFails rt (basicR rs) \<longrightarrow>
            handleSearch rt rs query (st, store)
              = ((st\<lparr>isLoading := False\<rparr>, store), [Call Basic, Alert])"
  proof
    assume "basicFails rt (basicR rs)"
    then obtain e where "generateBasicTrailInfo rt (basicR rs) = Inl e"
      using basicFails_iff by blast
    then show "handleSearch rt rs query (st, store)
                = ((st\<lparr>isLoading := False\<rparr>, store), [Call Basic, Alert])"
      by (simp add: handleSearch_miss[OF assms] searchMiss_failure)
  qed
next
  have "alerts (snd (handleSearch rt rs query (st, store))) = []
              \<and> Display (Some p) \<in> set (snd (handleSearch rt rs query (st, store)))
              \<and> settled Misc (snd (handleSearch rt rs query (st, store)))
              \<and> settled Routes (snd (handleSearch rt rs query (st, store)))
              \<and> (storeWrites (snd (handleSearch rt rs query (st, store))) = [] \<longleftrightarrow>
                   template rt (getField (spread3 p (resolved (generateTrailMisc rt b (miscR rs)))
                       (resolved (generateTrailRoutes rt b (routesR rs)))) (js ''name'')) = None)"
    if hb: "generateBasicTrailInfo rt (basicR rs) = Inr b" and hp: "partialTrail b = Some p"
    for b p
  proof -
    let ?m = "resolved (generateTrailMisc rt b (miscR rs))"
    let ?r = "resolved (generateTrailRoutes rt b (routesR rs))"
    from miss_run[OF assms hb hp, of st]
    obtain st' :: app and rest where
      t0: "snd (handleSearch rt rs query (st, store)) =
            ([Call Basic, Display (Some p)] @ rest) @ snd (persistFinal rt p ?m ?r store)"
      and w0: "storeWrites ([Call Basic, Display (Some p)] @ rest) = []"
      and a0: "alerts ([Call Basic, Display (Some p)] @ rest) = []"
      and s0: "settled Misc ([Call Basic, Display (Some p)] @ rest)"
        "settled Routes ([Call Basic, Display (Some p)] @ rest)"
      by force
    define pre where "pre = [Call Basic, Display (Some p)] @ rest"
    have t: "snd (handleSearch rt rs query (st, store)) = pre @ snd (persistFinal rt p ?m ?r store)"
      and w: "storeWrites pre = []" and a: "alerts pre = []"
      and s: "settled Misc pre" "settled Routes pre" and d: "Display (Some p) \<in> set pre"
      using t0 w0 a0 s0 by (simp_all add: pre_def)
    show ?thesis
    proof (cases "template rt (getField (spread3 p ?m ?r) (js ''name''))")
      case None
      have "alerts (pre @ [UnhandledRejection]) = []"
        by (simp add: alerts_append a) (simp add: alerts_def)
      moreover have "storeWrites (pre @ [UnhandledRejection]) = []"
        by (rule writes_unhandled[OF w])
      moreover have "settled Misc (pre @ [UnhandledRejection])" "settled Routes (pre @ [UnhandledRejection])"
        using s by (simp_all add: settled_append)
      moreover have "Display (Some p) \<in> set (pre @ [UnhandledRejection])" using d by simp
      ultimately show ?thesis
        unfolding t persistFinal_None[OF None] snd_conv by (simp add: None)
    next
      case (Some n)
      let ?w = "StoreSet (PREFIX @ n) (JSON_stringify rt (spread3 p ?m ?r))"
      have "alerts (pre @ [?w]) = []"
        by (simp add: alerts_append a) (simp add: alerts_def)
      moreover have "storeWrites (pre @ [?w]) = [?w]"
        by (rule writes_last[OF w])
      moreover have "settled Misc (pre @ [?w])" "settled Routes (pre @ [?w])"
        using s by (simp_all add: settled_append)
      moreover have "Display (Some p) \<in> set (pre @ [?w])" using d by simp
      ultimately show ?thesis
        unfolding t persistFinal_Some[OF Some] snd_conv by (simp add: Some)
    qed
  qed
  then show "\<forall>b p. generateBasicTrailInfo rt (basicR rs) = Inr b \<and> partialTrail b = Some p \<longrightarrow>
              alerts (snd (handleSearch rt rs query (st, store))) = []
              \<and> Display (Some p) \<in> set (snd (handleSearch rt rs query (st, store)))
              \<and> settled Misc (snd (handleSearch rt rs query (st, store)))
              \<and> settled Routes (snd (handleSearch rt rs query (st, store)))
              \<and> (storeWrites (snd (handleSearch rt rs query (st, store))) = [] \<longleftrightarrow>
                   template rt (getField (spread3 p (resolved (generateTrailMisc rt b (miscR rs)))
                       (resolved (generateTrailRoutes rt b (routesR rs)))) (js ''name'')) = None)"
    by blast
qed

text \<open>
  Claim C4 (partial visibility), as amended. After a cache miss and a basic stage that
  returns a value other than \<open>null\<close>, the record shown right after the basic request
  has exactly the fifteen fields of \<open>TrailData\<close>; each basic field holds what the
  basic result holds under that name (so it is set when the result supplies it), and
  every misc field and \<open>routeSegments\<close> are \<open>undefined\<close>.
\<close>

theorem partial_visibility:
  assumes "findLocalTrail rt store query = None"
    and "generateBasicTrailInfo rt (basicR rs) = Inr b"
    and "b \<noteq> JNull" and "b \<noteq> JUndefined"
  shows "\<exists>p rest. partialTrail b = Some p
     \<and> snd (handleSearch rt rs query (st, store)) = [Call Basic, Display (Some p)] @ rest
     \<and> (\<forall>k\<in>set basicFields. getProp b k = Some (getField p k))
     \<and> (\<forall>k\<in>set miscRouteFields. getField p k = JUndefined)
     \<and> (\<forall>k. hasField p k \<longleftrightarrow> k \<in> set (basicFields @ miscRouteFields))"
proof -
  from assms(3,4) obtain p where p: "partialTrail b = Some p"
    using partialTrail_None_iff[of b] by (cases "partialTrail b") auto
  from miss_run[OF assms(1,2) p, of st]
  obtain rest where
    "snd (handleSearch rt rs query (st, store)) = [Call Basic, Display (Some p)] @ rest"
    by force
  with p partialTrail_shape(2,3,4)[OF p] show ?thesis by blast
qed

lemma miss_run_written:
  assumes "findLocalTrail rt store query = None"
    and "generateBasicTrailInfo rt (basicR rs) = Inr b"
    and "partialTrail b = Some p"
    and "m = resolved (generateTrailMisc rt b (miscR rs))"
    and "r = resolved (generateTrailRoutes rt b (routesR rs))"
    and "template rt (getField (spread3 p m r) (js ''name'')) = Some n"
  shows "\<exists>pre. snd (handleSearch rt rs query (st, store))
                 = pre @ [StoreSet (PREFIX @ n) (JSON_stringify rt (spread3 p m r))]
           \<and> storeWrites pre = [] \<and> alerts pre = [] \<and> settled Misc pre \<and> settled Routes pre
           \<and> ((\<exists>err. generateTrailRoutes rt b (routesR rs) = Inl err) \<longrightarrow>
                  ConsoleError Routes \<in> set pre)"
    and "snd (fst (handleSearch rt rs query (st, store)))
           = setItem store (PREFIX @ n) (JSON_stringify rt (spread3 p m r))"
proof -
  from miss_run[OF assms(1,2,3), of st]
  obtain st' :: app and rest where
    t: "handleSearch rt rs query (st, store) =
          ((st', fst (persistFinal rt p m r store)),
           ([Call Basic, Display (Some p)] @ rest) @ snd (persistFinal rt p m r store))"
    and f: "storeWrites ([Call Basic, Display (Some p)] @ rest) = []"
      "alerts ([Call Basic, Display (Some p)] @ rest) = []"
      "settled Misc ([Call Basic, Display (Some p)] @ rest)"
      "settled Routes ([Call Basic, Display (Some p)] @ rest)"
      "(\<exists>err. generateTrailRoutes rt b (routesR rs) = Inl err) \<longrightarrow>
            ConsoleError Routes \<in> set ([Call Basic, Display (Some p)] @ rest)"
    unfolding assms(4,5) by blast
  have "snd (handleSearch rt rs query (st, store))
          = ([Call Basic, Display (Some p)] @ rest)
            @ [StoreSet (PREFIX @ n) (JSON_stringify rt (spread3 p m r))]"
    unfolding t persistFinal_Some[OF assms(6)] by simp
  with f show "\<exists>pre. snd (handleSearch rt rs query (st, store))
                 = pre @ [StoreSet (PREFIX @ n) (JSON_stringify rt (spread3 p m r))]
           \<and> storeWrites pre = [] \<and> alerts pre = [] \<and> settled Misc pre \<and> settled Routes pre
           \<and> ((\<exists>err. generateTrailRoutes rt b (routesR rs) = Inl err) \<longrightarrow>
                  ConsoleError Routes \<in> set pre)"
    by blast
  show "snd (fst (handleSearch rt rs query (st, store)))
           = setItem store (PREFIX @ n) (JSON_stringify rt (spread3 p m r))"
    unfolding t persistFinal_Some[OF assms(6)] by simp
qed

lemma miss_run_unwritten:
  assumes "findLocalTrail rt store query = None"
    and "generateBasicTrailInfo rt (basicR rs) = Inr b"
    and "partialTrail b = Some p"
    and "m = resolved (generateTrailMisc rt b (miscR rs))"
    and "r = resolved (generateTrailRoutes rt b (routesR rs))"
    and "template rt (getField (spread3 p m r) (js ''name'')) = None"
  shows "storeWrites (snd (handleSearch rt rs query (st, store))) = []
     \<and> alerts (snd (handleSearch rt rs query (st, store))) = []
     \<and> snd (fst (handleSearch rt rs query (st, store))) = store
     \<and> settled Misc (snd (handleSearch rt rs query (st, store)))
     \<and> settled Routes (snd (handleSearch rt rs query (st, store)))
     \<and> last (snd (handleSearch rt rs query (st, store))) = UnhandledRejection
     \<and> ((\<exists>err. generateTrailRoutes rt b (routesR rs) = Inl err) \<longrightarrow>
            ConsoleError Routes \<in> set (snd (handleSearch rt rs query (st, store))))"
proof -
  from miss_run[OF assms(1,2,3), of st]
  obtain st' :: app and rest where
    t0: "handleSearch rt rs query (st, store) =
          ((st', fst (persistFinal rt p m r store)),
           ([Call Basic, Display (Some p)] @ rest) @ snd (persistFinal rt p m r store))"
    and f0: "storeWrites ([Call Basic, Display (Some p)] @ rest) = []"
      "alerts ([Call Basic, Display (Some p)] @ rest) = []"
      "settled Misc ([Call Basic, Display (Some p)] @ rest)"
      "settled Routes ([Call Basic, Display (Some p)] @ rest)"
      "(\<exists>err. generateTrailRoutes rt b (routesR rs) = Inl err) \<longrightarrow>
            ConsoleError Routes \<in> set ([Call Basic, Display (Some p)] @ rest)"
    unfolding assms(4,5) by blast
  define pre where "pre = [Call Basic, Display (Some p)] @ rest"
  have t: "handleSearch rt rs query (st, store) = ((st', store), pre @ [UnhandledRejection])"
    unfolding t0 persistFinal_None[OF assms(6)] by (simp add: pre_def)
  have f: "storeWrites pre = []" "alerts pre = []" "settled Misc pre" "settled Routes pre"
    "(\<exists>err. generateTrailRoutes rt b (routesR rs) = Inl err) \<longrightarrow> ConsoleError Routes \<in> set pre"
    using f0 by (simp_all add: pre_def)
  have "alerts (pre @ [UnhandledRejection]) = []"
    by (simp add: alerts_append f(2)) (simp add: alerts_def)
  moreover note writes_unhandled[OF f(1)]
  moreover have "settled Misc (pre @ [UnhandledRejection])" "settled Routes (pre @ [UnhandledRejection])"
    using f(3,4) by (simp_all add: settled_append)
  moreover have "(\<exists>err. generateTrailRoutes rt b (routesR rs) = Inl err) \<longrightarrow>
            ConsoleError Routes \<in> set (pre @ [UnhandledRejection])"
    using f(5) by simp
  ultimately show ?thesis unfolding t by simp
qed

text \<open>
  Claim C2 (single persistence), as amended. After a cache miss and a basic stage that
  returns a value other than \<open>null\<close>, the store is written at most once. The final
  record is \<open>{...partialTrail, ...misc, ...routes}\<close>, with \<open>{}\<close> for a failed
  stage. When its name converts to a string, the run ends with the one write, of that
  record under the prefix followed by that string; nothing is written before it, and
  both the misc stage and the routes stage have settled before it (by their merge or by
  their logged failure). When the conversion throws, nothing is written and the store
  stays as it was: the run ends, after both stages have settled, with a rejection that
  nobody handles. The name of the final record is the name of the basic stage whenever
  neither stage result carries a \<open>name\<close> of its own.
\<close>

theorem single_persistence:
  assumes "findLocalTrail rt store query = None"
    and "generateBasicTrailInfo rt (basicR rs) = Inr b"
    and "partialTrail b = Some p"
    and "m = resolved (generateTrailMisc rt b (miscR rs))"
    and "r = resolved (generateTrailRoutes rt b (routesR rs))"
  shows "(\<forall>n. template rt (getField (spread3 p m r) (js ''name'')) = Some n \<longrightarrow>
           (\<exists>pre. snd (handleSearch rt rs query (st, store))
                    = pre @ [StoreSet (PREFIX @ n) (JSON_stringify rt (spread3 p m r))]
              \<and> storeWrites pre = [] \<and> settled Misc pre \<and> settled Routes pre)
           \<and> snd (fst (handleSearch rt rs query (st, store)))
                = setItem store (PREFIX @ n) (JSON_stringify rt (spread3 p m r)))
    \<and> (template rt (getField (spread3 p m r) (js ''name'')) = None \<longrightarrow>
           storeWrites (snd (handleSearch rt rs query (st, store))) = []
           \<and> snd (fst (handleSearch rt rs query (st, store))) = store
           \<and> settled Misc (snd (handleSearch rt rs query (st, store)))
           \<and> settled Routes (snd (handleSearch rt rs query (st, store)))
           \<and> last (snd (handleSearch rt rs query (st, store))) = UnhandledRejection)
    \<and> (\<not> hasField m (js ''name'') \<and> \<not> hasField r (js ''name'') \<longrightarrow>
           getField (spread3 p m r) (js ''name'') = getField p (js ''name''))"
proof -
  have 1: "(\<exists>pre. snd (handleSearch rt rs query (st, store))
                    = pre @ [StoreSet (PREFIX @ n) (JSON_stringify rt (spread3 p m r))]
              \<and> storeWrites pre = [] \<and> settled Misc pre \<and> settled Routes pre)
           \<and> snd (fst (handleSearch rt rs query (st, store)))
                = setItem store (PREFIX @ n) (JSON_stringify rt (spread3 p m r))"
    if "template rt (getField (spread3 p m r) (js ''name'')) = Some n" for n
    using miss_run_written[OF assms that, of st] by blast
  have 2: "template rt (getField (spread3 p m r) (js ''name'')) = None \<longrightarrow>
           storeWrites (snd (handleSearch rt rs query (st, store))) = []
           \<and> snd (fst (handleSearch rt rs query (st, store))) = store
           \<and> settled Misc (snd (handleSearch rt rs query (st, store)))
           \<and> settled Routes (snd (handleSearch rt rs query (st, store)))
           \<and> last (snd (handleSearch rt rs query (st, store))) = UnhandledRejection"
    using miss_run_unwritten[OF assms, of st] by blast
  have 3: "\<not> hasField m (js ''name'') \<and> \<not> hasField r (js ''name'') \<longrightarrow>
           getField (spread3 p m r) (js ''name'') = getField p (js ''name'')"
    using getField_spread3_base[OF partialTrail_shape(1)[OF assms(3)]] by blast
  from 1 2 3 show ?thesis by blast
qed


section \<open>The routes stage\<close>

text \<open>
  Claim C7 (output of the routes stage), as amended. The routes stage succeeds exactly
  when its prompt can be built (the name, the location and the centre coordinates of the
  basic result convert to strings) and the response has a non-empty text that, cleaned
  of its fences and trimmed, is JSON; its result is then the value that text denotes,
  whatever its structure. A prompt that cannot be built, a rejected call, a missing or
  empty text and text that is not JSON are the only failures: the number of segments and
  their timelines are not checked. The request is sent exactly when the prompt can be
  built.
\<close>

theorem routes_stage_result:
  "(generateTrailRoutes rt basicInfo response = Inr v \<longleftrightarrow>
      routesPrompt rt basicInfo \<noteq> None
      \<and> (\<exists>t. response = Responded (Some t) \<and> t \<noteq> []
            \<and> JSON_parse rt (trim (removeAll (js ''```'') (removeAll (js ''```json'') t))) = Some v))
   \<and> (Call Routes \<in> set (stageRequests rt basicInfo) \<longleftrightarrow> routesPrompt rt basicInfo \<noteq> None)"
  by (auto simp: generateTrailRoutes_def safeParseJSON_def Let_def stageRequests_def
      split: outcome.splits option.splits)

section \<open>Merging the two concurrent stages\<close>




section \<open>The saved-plans ledger: upsert\<close>

lemma isTrailData_name:
  "isTrailData t \<Longrightarrow> \<exists>n. getProp t (js ''name'') = Some (JStr n) \<and> trailName t = JStr n"
  by (auto simp: isTrailData_def trailName_def split: jsval.splits)

lemma isTrailData_truthy: "isTrailData t \<Longrightarrow> truthy t"
  by (auto simp: isTrailData_def split: jsval.splits)

lemma findByName_trails:
  assumes "\<forall>t\<in>set ts. isTrailData t" and "isTrailData trail"
  shows "findByName ts trail = Inr (List.find (\<lambda>t. trailName t = trailName trail) ts)"
  using assms(1)
proof (induction ts)
  case Nil
  show ?case by simp
next
  case (Cons t ts)
  from Cons.prems obtain a where a: "getProp t (js ''name'') = Some (JStr a)" "trailName t = JStr a"
    using isTrailData_name[of t] by auto
  from assms(2) obtain b where b: "getProp trail (js ''name'') = Some (JStr b)" "trailName trail = JStr b"
    using isTrailData_name by blast
  from Cons show ?case by (simp add: a b)
qed

lemma mapByName_trails:
  assumes "\<forall>t\<in>set ts. isTrailData t" and "isTrailData trail"
  shows "mapByName ts trail = Inr (map (\<lambda>t. if trailName t = trailName trail then trail else t) ts)"
  using assms(1)
proof (induction ts)
  case Nil
  show ?case by simp
next
  case (Cons t ts)
  from Cons.prems obtain a where a: "getProp t (js ''name'') = Some (JStr a)" "trailName t = JStr a"
    using isTrailData_name[of t] by auto
  from assms(2) obtain b where b: "getProp trail (js ''name'') = Some (JStr b)" "trailName trail = JStr b"
    using isTrailData_name by blast
  from Cons show ?case by (simp add: a b)
qed

lemma handleSaveTrail_trails:
  assumes "\<forall>t\<in>set (savedTrails st). isTrailData t" and "isTrailData trail"
  shows "handleSaveTrail trail st =
     Inr (if trailName trail \<in> trailName ` set (savedTrails st)
          then st\<lparr>savedTrails := map (\<lambda>t. if trailName t = trailName trail then trail else t) (savedTrails st)\<rparr>
          else st\<lparr>savedTrails := savedTrails st @ [trail]\<rparr>)"
proof (cases "List.find (\<lambda>t. trailName t = trailName trail) (savedTrails st)")
  case None
  then have "trailName trail \<notin> trailName ` set (savedTrails st)"
    by (auto simp: find_None_iff)
  then show ?thesis
    by (simp add: handleSaveTrail_def findByName_trails[OF assms] None)
next
  case (Some t)
  then have t: "t \<in> set (savedTrails st)" "trailName t = trailName trail"
    by (auto simp: find_Some_iff)
  have tr: "truthy t"
    using t(1) assms(1) isTrailData_truthy by blast
  have "trailName t \<in> trailName ` set (savedTrails st)"
    using t(1) by (rule imageI)
  then have "trailName trail \<in> trailName ` set (savedTrails st)"
    by (simp add: t(2))
  with tr show ?thesis
    by (simp add: handleSaveTrail_def findByName_trails[OF assms] mapByName_trails[OF assms] Some)
qed

lemma map_replace_mem:
  "t \<in> set ts \<Longrightarrow> f t = f x \<Longrightarrow> x \<in> set (map (\<lambda>t. if f t = f x then x else t) ts)"
  by (induction ts) auto

lemma save_result:
  assumes "\<forall>t\<in>set (savedTrails st). isTrailData t" and "isTrailData trail"
    and "handleSaveTrail trail st = Inr st1"
  shows "(\<forall>t\<in>set (savedTrails st1). isTrailData t) \<and> trail \<in> set (savedTrails st1)"
proof (cases "trailName trail \<in> trailName ` set (savedTrails st)")
  case True
  then obtain t where t: "t \<in> set (savedTrails st)" "trailName t = trailName trail"
    by (auto simp: image_iff)
  from assms(3) have "savedTrails st1 =
      map (\<lambda>t. if trailName t = trailName trail then trail else t) (savedTrails st)"
    unfolding handleSaveTrail_trails[OF assms(1,2)] using True by auto
  moreover have "trail \<in> set (map (\<lambda>t. if trailName t = trailName trail then trail else t) (savedTrails st))"
    using t by (rule map_replace_mem)
  moreover have "\<forall>u\<in>set (map (\<lambda>t. if trailName t = trailName trail then trail else t) (savedTrails st)). isTrailData u"
    using assms(1,2) by auto
  ultimately show ?thesis by simp
next
  case False
  from assms(3) have "savedTrails st1 = savedTrails st @ [trail]"
    unfolding handleSaveTrail_trails[OF assms(1,2)] using False by auto
  then show ?thesis using assms(1,2) by simp
qed

text \<open>
  Claim C9 (upsert into the saved-plans ledger). On a ledger of trail records, saving a
  record whose name no entry has appends it at the end; saving a record whose name some
  entry has replaces the entries of that name where they stand, so that positions and
  length are kept. Hence a second save under the same name leaves the length unchanged,
  and the entry of that name is then the record saved last.
\<close>

theorem ledger_upsert:
  assumes "\<forall>t\<in>set (savedTrails st). isTrailData t" and "isTrailData trail"
  shows "(trailName trail \<notin> trailName ` set (savedTrails st) \<longrightarrow>
            handleSaveTrail trail st = Inr (st\<lparr>savedTrails := savedTrails st @ [trail]\<rparr>))
     \<and> (trailName trail \<in> trailName ` set (savedTrails st) \<longrightarrow>
            handleSaveTrail trail st =
              Inr (st\<lparr>savedTrails :=
                     map (\<lambda>t. if trailName t = trailName trail then trail else t) (savedTrails st)\<rparr>))
     \<and> (\<forall>trail' st1 st2.
            isTrailData trail' \<and> trailName trail' = trailName trail
            \<and> handleSaveTrail trail st = Inr st1 \<and> handleSaveTrail trail' st1 = Inr st2 \<longrightarrow>
              length (savedTrails st2) = length (savedTrails st1)
              \<and> trail' \<in> set (savedTrails st2)
              \<and> (\<forall>t\<in>set (savedTrails st2). trailName t = trailName trail \<longrightarrow> t = trail'))"
proof -
  note h = handleSaveTrail_trails[OF assms]
  have 1: "trailName trail \<notin> trailName ` set (savedTrails st) \<longrightarrow>
            handleSaveTrail trail st = Inr (st\<lparr>savedTrails := savedTrails st @ [trail]\<rparr>)"
    by (simp add: h)
  have 2: "trailName trail \<in> trailName ` set (savedTrails st) \<longrightarrow>
            handleSaveTrail trail st =
              Inr (st\<lparr>savedTrails :=
                     map (\<lambda>t. if trailName t = trailName trail then trail else t) (savedTrails st)\<rparr>)"
    by (simp add: h)
  have 3: "length (savedTrails st2) = length (savedTrails st1)
              \<and> trail' \<in> set (savedTrails st2)
              \<and> (\<forall>t\<in>set (savedTrails st2). trailName t = trailName trail \<longrightarrow> t = trail')"
    if t': "isTrailData trail'" and n: "trailName trail' = trailName trail"
      and s1: "handleSaveTrail trail st = Inr st1" and s2: "handleSaveTrail trail' st1 = Inr st2"
    for trail' st1 st2
  proof -
    from save_result[OF assms s1]
    have all1: "\<forall>t\<in>set (savedTrails st1). isTrailData t" and in1: "trail \<in> set (savedTrails st1)"
      by simp_all
    from in1 have "trailName trail \<in> trailName ` set (savedTrails st1)" by (rule imageI)
    then have mem: "trailName trail' \<in> trailName ` set (savedTrails st1)" by (simp add: n)
    from s2 have st2: "savedTrails st2 =
        map (\<lambda>t. if trailName t = trailName trail' then trail' else t) (savedTrails st1)"
      unfolding handleSaveTrail_trails[OF all1 t'] using mem by auto
    have a: "length (savedTrails st2) = length (savedTrails st1)" by (simp add: st2)
    have b: "trail' \<in> set (savedTrails st2)"
      unfolding st2 using in1 n[symmetric] by (rule map_replace_mem)
    have c: "\<forall>t\<in>set (savedTrails st2). trailName t = trailName trail \<longrightarrow> t = trail'"
      unfolding st2 n by auto
    from a b c show ?thesis by blast
  qed
  from 1 2 3 show ?thesis by blast
qed

section \<open>The model on concrete inputs\<close>

subsection \<open>Evaluation of the examples\<close>

lemma ex_parse_Alps:
  \<open>JSON_parse exampleRuntime (js ''{"name":"Alps"}'') = Some (JObj [(js ''name'', JStr (js ''Alps''))])\<close>
  by (simp add: exampleRuntime_def tableRuntime_def js_def)

lemma ex_parse_mock: "JSON_parse exampleRuntime mockText = Some mockCommunityData"
  by (simp add: exampleRuntime_def tableRuntime_def js_def mockText_def)

lemma ex_parse_oops: "JSON_parse exampleRuntime (js ''oops'') = None"
  by (simp add: exampleRuntime_def tableRuntime_def js_def mockText_def)

lemma ex_lower: "toLowerCase exampleRuntime = map asciiLower"
  by (simp add: exampleRuntime_def tableRuntime_def)

lemma ex_norm: "normalize exampleRuntime (js '' ALPS trail '') = js ''alps trail''"
  by (simp add: normalize_def ex_lower trim_def isWhiteSpace_def asciiLower_def js_def)

lemma ex_records_Alps:
  \<open>storedRecords exampleRuntime [(PREFIX @ js ''Alps'', js ''{"name":"Alps"}'')]
     = [JObj [(js ''name'', JStr (js ''Alps''))]]\<close>
  by (simp add: storedRecords_def keys_def recordAt_def getItem_def ex_parse_Alps field_def)
     (simp add: js_def PREFIX_def)

lemma ex_seed: "seedStore exampleRuntime [] = [(wugongKey, mockText)]"
  by (simp add: seedStore_def getItem_def setItem_def exampleRuntime_def tableRuntime_def)

lemma ex_records_seed:
  "storedRecords exampleRuntime [(wugongKey, mockText)] = [mockCommunityData]"
  by (simp add: storedRecords_def keys_def recordAt_def getItem_def ex_parse_mock)
     (simp add: wugongKey_def PREFIX_def mockText_def mockCommunityData_def field_def js_def)

lemma ex_parse_empty_name:
  \<open>JSON_parse exampleRuntime (js ''{"name":""}'') = Some (JObj [(js ''name'', JStr [])])\<close>
  by (simp add: exampleRuntime_def tableRuntime_def js_def)

lemma ex_records_empty_name:
  \<open>storedRecords exampleRuntime [(PREFIX, js ''{"name":""}'')] = []\<close>
  by (simp add: storedRecords_def keys_def recordAt_def getItem_def ex_parse_empty_name field_def)

lemma ex_records_two:
  \<open>storedRecords exampleRuntime
      [(PREFIX, js ''{"name":""}''), (PREFIX @ js ''Alps'', js ''{"name":"Alps"}'')]
     = [JObj [(js ''name'', JStr (js ''Alps''))]]\<close>
  by (simp add: storedRecords_def keys_def recordAt_def getItem_def ex_parse_empty_name
        ex_parse_Alps field_def)
     (simp add: js_def PREFIX_def)

lemma ex_records_oops:
  \<open>storedRecords exampleRuntime
      [(PREFIX @ js ''x'', js ''oops''), (PREFIX @ js ''Alps'', js ''{"name":"Alps"}'')]
     = [JObj [(js ''name'', JStr (js ''Alps''))]]\<close>
  by (simp add: storedRecords_def keys_def recordAt_def getItem_def ex_parse_oops
        ex_parse_Alps field_def)
     (simp add: js_def PREFIX_def)

lemma ex_norm_abc: "normalize exampleRuntime (js ''abc'') = js ''abc''"
  by (simp add: normalize_def ex_lower trim_def isWhiteSpace_def asciiLower_def js_def)

lemma ex_norm_alps: "normalize exampleRuntime (js ''alps'') = js ''alps''"
  by (simp add: normalize_def ex_lower trim_def isWhiteSpace_def asciiLower_def js_def)

lemma ex_spaces: "\<forall>c\<in>set (js ''  ''). isWhiteSpace c"
  by (simp add: isWhiteSpace_def js_def)

lemma ex_lower_spaces: "toLowerCase exampleRuntime (js ''  '') = js ''  ''"
  by (simp add: ex_lower asciiLower_def js_def)

lemma ex_match_Alps:
  "nameMatches exampleRuntime (js ''alps trail'') (JObj [(js ''name'', JStr (js ''Alps''))])"
  by (simp add: nameMatches_def field_def ex_lower asciiLower_def js_def sublist_Cons_right)

lemma ex_match_alps:
  "nameMatches exampleRuntime (js ''alps'') (JObj [(js ''name'', JStr (js ''Alps''))])"
  by (simp add: nameMatches_def field_def ex_lower asciiLower_def js_def sublist_Cons_right)

lemma ex_basic_rejected: "generateBasicTrailInfo rt (basicR rejecting) = Inl NetworkError"
  by (simp add: generateBasicTrailInfo_def rejecting_def)

lemma ex_parse_A:
  \<open>JSON_parse exampleRuntime (js ''{"name":"A"}'') = Some (JObj [(js ''name'', JStr (js ''A''))])\<close>
  by (simp add: exampleRuntime_def tableRuntime_def js_def)

lemma ex_parse_B:
  \<open>JSON_parse exampleRuntime (js ''{"name":"B"}'') = Some (JObj [(js ''name'', JStr (js ''B''))])\<close>
  by (simp add: exampleRuntime_def tableRuntime_def js_def)

lemma ex_parse_S:
  \<open>JSON_parse exampleRuntime (js ''{"story":"S"}'') = Some (JObj [(js ''story'', JStr (js ''S''))])\<close>
  by (simp add: exampleRuntime_def tableRuntime_def js_def)

lemma ex_parse_empty: \<open>JSON_parse exampleRuntime (js ''{}'') = Some (JObj [])\<close>
  by (simp add: exampleRuntime_def tableRuntime_def js_def)

lemma ex_parse_segments_none:
  \<open>JSON_parse exampleRuntime (js ''{"routeSegments":[]}'')
     = Some (JObj [(js ''routeSegments'', JArr [])])\<close>
  by (simp add: exampleRuntime_def tableRuntime_def js_def)


lemma ex_safe_A:
  \<open>safeParseJSON exampleRuntime (Some (js ''{"name":"A"}''))
     = Inr (JObj [(js ''name'', JStr (js ''A''))])\<close>
proof -
  have \<open>trim (removeAll (js ''```'') (removeAll (js ''```json'') (js ''{"name":"A"}'')))
          = js ''{"name":"A"}''\<close>
    by (simp add: js_def trim_def isWhiteSpace_def)
  then show ?thesis by (simp add: safeParseJSON_def ex_parse_A) (simp add: js_def)
qed

lemma ex_safe_B:
  \<open>safeParseJSON exampleRuntime (Some (js ''{"name":"B"}''))
     = Inr (JObj [(js ''name'', JStr (js ''B''))])\<close>
proof -
  have \<open>trim (removeAll (js ''```'') (removeAll (js ''```json'') (js ''{"name":"B"}'')))
          = js ''{"name":"B"}''\<close>
    by (simp add: js_def trim_def isWhiteSpace_def)
  then show ?thesis by (simp add: safeParseJSON_def ex_parse_B) (simp add: js_def)
qed

lemma ex_safe_S:
  \<open>safeParseJSON exampleRuntime (Some (js ''{"story":"S"}''))
     = Inr (JObj [(js ''story'', JStr (js ''S''))])\<close>
proof -
  have \<open>trim (removeAll (js ''```'') (removeAll (js ''```json'') (js ''{"story":"S"}'')))
          = js ''{"story":"S"}''\<close>
    by (simp add: js_def trim_def isWhiteSpace_def)
  then show ?thesis by (simp add: safeParseJSON_def ex_parse_S) (simp add: js_def)
qed

lemma ex_safe_empty: \<open>safeParseJSON exampleRuntime (Some (js ''{}'')) = Inr (JObj [])\<close>
proof -
  have \<open>trim (removeAll (js ''```'') (removeAll (js ''```json'') (js ''{}''))) = js ''{}''\<close>
    by (simp add: js_def trim_def isWhiteSpace_def)
  then show ?thesis by (simp add: safeParseJSON_def ex_parse_empty) (simp add: js_def)
qed

lemma ex_safe_fenced: \<open>safeParseJSON exampleRuntime (Some (js ''```json{}``` '')) = Inr (JObj [])\<close>
proof -
  have \<open>trim (removeAll (js ''```'') (removeAll (js ''```json'') (js ''```json{}``` ''))) = js ''{}''\<close>
    by (simp add: js_def trim_def isWhiteSpace_def)
  then show ?thesis by (simp add: safeParseJSON_def ex_parse_empty) (simp add: js_def)
qed

lemma ex_safe_segments_none:
  \<open>safeParseJSON exampleRuntime (Some (js ''{"routeSegments":[]}''))
     = Inr (JObj [(js ''routeSegments'', JArr [])])\<close>
proof -
  have \<open>trim (removeAll (js ''```'') (removeAll (js ''```json'') (js ''{"routeSegments":[]}'')))
          = js ''{"routeSegments":[]}''\<close>
    by (simp add: js_def trim_def isWhiteSpace_def)
  then show ?thesis by (simp add: safeParseJSON_def ex_parse_segments_none) (simp add: js_def)
qed


lemma ex_miss_empty_store: "findLocalTrail rt [] query = None"
  by (simp add: findLocalTrail_def keys_def)

lemma ex_partial_A:
  "partialTrail (JObj [(js ''name'', JStr (js ''A''))]) =
     Some (JObj
       [(js ''name'', JStr (js ''A'')),
        (js ''location'', JUndefined),
        (js ''highlight'', JUndefined),
        (js ''difficulty'', JUndefined),
        (js ''duration'', JUndefined),
        (js ''length'', JUndefined),
        (js ''elevationGain'', JUndefined),
        (js ''centerCoordinates'', JUndefined),
        (js ''description'', JUndefined),
        (js ''story'', JUndefined),
        (js ''routeSegments'', JUndefined),
        (js ''gear'', JUndefined),
        (js ''safetyTips'', JUndefined),
        (js ''bestSeason'', JUndefined),
        (js ''communityTips'', JUndefined)])"
  by (simp add: partialTrail_def field_def) (simp add: js_def)

lemma ex_partial_empty:
  "partialTrail (JObj []) =
     Some (JObj
       [(js ''name'', JUndefined),
        (js ''location'', JUndefined),
        (js ''highlight'', JUndefined),
        (js ''difficulty'', JUndefined),
        (js ''duration'', JUndefined),
        (js ''length'', JUndefined),
        (js ''elevationGain'', JUndefined),
        (js ''centerCoordinates'', JUndefined),
        (js ''description'', JUndefined),
        (js ''story'', JUndefined),
        (js ''routeSegments'', JUndefined),
        (js ''gear'', JUndefined),
        (js ''safetyTips'', JUndefined),
        (js ''bestSeason'', JUndefined),
        (js ''communityTips'', JUndefined)])"
  by (simp add: partialTrail_def field_def)

lemma writtenKeys_append: "writtenKeys (xs @ ys) = writtenKeys xs @ writtenKeys ys"
  by (simp add: writtenKeys_def)

lemma writtenKeys_none: "storeWrites pre = [] \<Longrightarrow> writtenKeys pre = []"
  unfolding storeWrites_def writtenKeys_def
  by (induction pre) (auto split: effect.splits if_splits)

lemma writtenKeys_last:
  "storeWrites pre = [] \<Longrightarrow> writtenKeys (pre @ [StoreSet k v]) = [k]"
  by (simp add: writtenKeys_append writtenKeys_none) (simp add: writtenKeys_def)

lemma ex_template_str: "template rt (JStr s) = Some s"
  by (simp add: template_def)

lemma ex_template_N: "template exampleRuntime (JObj [(js ''toString'', JNull)]) = None"
  by (simp add: template_def exampleRuntime_def tableRuntime_def)

lemma ex_miscPrompt_A:
  "miscPrompt rt (JObj [(js ''name'', JStr (js ''A''))]) = Some [js ''A'', js ''undefined'']"
  by (simp add: miscPrompt_def template_def field_def) (simp add: js_def)

lemma ex_routesPrompt_A:
  "routesPrompt rt (JObj [(js ''name'', JStr (js ''A''))])
     = Some [js ''A'', js ''undefined'', js ''undefined'', js ''undefined'']"
  by (simp add: routesPrompt_def optionalChain_def template_def field_def) (simp add: js_def)

lemma ex_miscPrompt_N:
  "miscPrompt exampleRuntime (JObj [(js ''name'', JObj [(js ''toString'', JNull)])]) = None"
  by (simp add: miscPrompt_def field_def ex_template_N)

lemma ex_routesPrompt_N:
  "routesPrompt exampleRuntime (JObj [(js ''name'', JObj [(js ''toString'', JNull)])]) = None"
  by (simp add: routesPrompt_def field_def ex_template_N)

lemma ex_basic_A:
  \<open>generateBasicTrailInfo exampleRuntime (basicR (answering (js ''{"name":"A"}'') x y z))
     = Inr (JObj [(js ''name'', JStr (js ''A''))])\<close>
  by (simp add: generateBasicTrailInfo_def answering_def ex_safe_A)

lemma ex_basic_empty:
  \<open>generateBasicTrailInfo exampleRuntime (basicR (answering (js ''{}'') x y z)) = Inr (JObj [])\<close>
  by (simp add: generateBasicTrailInfo_def answering_def ex_safe_empty)

lemma ex_misc_S:
  \<open>generateTrailMisc exampleRuntime (JObj [(js ''name'', JStr (js ''A''))])
      (Responded (Some (js ''{"story":"S"}''))) = Inr (JObj [(js ''story'', JStr (js ''S''))])\<close>
  by (simp add: generateTrailMisc_def ex_miscPrompt_A ex_safe_S)

lemma ex_misc_B:
  \<open>generateTrailMisc exampleRuntime (JObj [(js ''name'', JStr (js ''A''))])
      (Responded (Some (js ''{"name":"B"}''))) = Inr (JObj [(js ''name'', JStr (js ''B''))])\<close>
  by (simp add: generateTrailMisc_def ex_miscPrompt_A ex_safe_B)


lemma ex_misc_rejected:
  "generateTrailMisc rt (JObj [(js ''name'', JStr (js ''A''))]) Rejected = Inl NetworkError"
  by (simp add: generateTrailMisc_def ex_miscPrompt_A)

lemma ex_routes_rejected:
  "generateTrailRoutes rt (JObj [(js ''name'', JStr (js ''A''))]) Rejected = Inl NetworkError"
  by (simp add: generateTrailRoutes_def ex_routesPrompt_A)

lemma ex_routes_empty:
  \<open>generateTrailRoutes exampleRuntime (JObj [(js ''name'', JStr (js ''A''))])
      (Responded (Some (js ''{}''))) = Inr (JObj [])\<close>
  by (simp add: generateTrailRoutes_def ex_routesPrompt_A ex_safe_empty)

lemma ex_routes_fenced:
  \<open>generateTrailRoutes exampleRuntime (JObj [(js ''name'', JStr (js ''A''))])
      (Responded (Some (js ''```json{}``` ''))) = Inr (JObj [])\<close>
  by (simp add: generateTrailRoutes_def ex_routesPrompt_A ex_safe_fenced)

lemma ex_parse_N:
  \<open>JSON_parse exampleRuntime (js ''{"name":{"toString":null}}'')
     = Some (JObj [(js ''name'', JObj [(js ''toString'', JNull)])])\<close>
  by (simp add: exampleRuntime_def tableRuntime_def js_def)

lemma ex_safe_N:
  \<open>safeParseJSON exampleRuntime (Some (js ''{"name":{"toString":null}}''))
     = Inr (JObj [(js ''name'', JObj [(js ''toString'', JNull)])])\<close>
proof -
  have \<open>trim (removeAll (js ''```'') (removeAll (js ''```json'') (js ''{"name":{"toString":null}}'')))
          = js ''{"name":{"toString":null}}''\<close>
    by (simp add: js_def trim_def isWhiteSpace_def)
  then show ?thesis by (simp add: safeParseJSON_def ex_parse_N) (simp add: js_def)
qed

lemma ex_basic_N:
  \<open>generateBasicTrailInfo exampleRuntime (basicR (answering (js ''{"name":{"toString":null}}'') x y z))
     = Inr (JObj [(js ''name'', JObj [(js ''toString'', JNull)])])\<close>
  by (simp add: generateBasicTrailInfo_def answering_def ex_safe_N)

lemma ex_misc_N:
  "generateTrailMisc exampleRuntime (JObj [(js ''name'', JObj [(js ''toString'', JNull)])]) response
     = Inl TypeError"
  by (simp add: generateTrailMisc_def ex_miscPrompt_N)

lemma ex_routes_N:
  "generateTrailRoutes exampleRuntime (JObj [(js ''name'', JObj [(js ''toString'', JNull)])]) response
     = Inl TypeError"
  by (simp add: generateTrailRoutes_def ex_routesPrompt_N)

lemma ex_partial_N:
  "partialTrail (JObj [(js ''name'', JObj [(js ''toString'', JNull)])]) =
     Some (JObj
       [(js ''name'', JObj [(js ''toString'', JNull)]),
        (js ''location'', JUndefined),
        (js ''highlight'', JUndefined),
        (js ''difficulty'', JUndefined),
        (js ''duration'', JUndefined),
        (js ''length'', JUndefined),
        (js ''elevationGain'', JUndefined),
        (js ''centerCoordinates'', JUndefined),
        (js ''description'', JUndefined),
        (js ''story'', JUndefined),
        (js ''routeSegments'', JUndefined),
        (js ''gear'', JUndefined),
        (js ''safetyTips'', JUndefined),
        (js ''bestSeason'', JUndefined),
        (js ''communityTips'', JUndefined)])"
  by (simp add: partialTrail_def field_def) (simp add: js_def)

lemma ex_name_of_partial:
  "partialTrail (JObj [(js ''name'', v)]) = Some p \<Longrightarrow> getField p (js ''name'') = v"
  using partialTrail_shape(2)[of "JObj [(js ''name'', v)]" p]
  by (simp add: basicFields_def field_def)

lemma ex_name_unmerged:
  "partialTrail b = Some p \<Longrightarrow>
   getField (spread3 p (JObj []) (JObj [])) (js ''name'') = getField p (js ''name'')"
  using getField_spread3_base[OF partialTrail_shape(1), of b p "JObj []" "js ''name''" "JObj []"]
  by (simp add: hasField_def)

lemma ex_routes_none:
  \<open>generateTrailRoutes exampleRuntime (JObj [(js ''name'', JStr (js ''A''))])
      (Responded (Some (js ''{"routeSegments":[]}''))) = Inr (JObj [(js ''routeSegments'', JArr [])])\<close>
  by (simp add: generateTrailRoutes_def ex_routesPrompt_A ex_safe_segments_none)

lemma ex_hasField_single: "hasField (JObj [(k, v)]) k' \<longleftrightarrow> k' = k"
  by (auto simp: hasField_def)

lemma ex_name_ne_story: "js ''name'' \<noteq> js ''story''" "js ''name'' \<noteq> js ''routeSegments''"
  "js ''routeSegments'' \<noteq> js ''story''"
  by (simp_all add: js_def)

lemma ex_spread_B:
  "getField (spread3
       (JObj
         [(js ''name'', JStr (js ''A'')),
          (js ''location'', JUndefined),
          (js ''highlight'', JUndefined),
          (js ''difficulty'', JUndefined),
          (js ''duration'', JUndefined),
          (js ''length'', JUndefined),
          (js ''elevationGain'', JUndefined),
          (js ''centerCoordinates'', JUndefined),
          (js ''description'', JUndefined),
          (js ''story'', JUndefined),
          (js ''routeSegments'', JUndefined),
          (js ''gear'', JUndefined),
          (js ''safetyTips'', JUndefined),
          (js ''bestSeason'', JUndefined),
          (js ''communityTips'', JUndefined)])
       (JObj [(js ''name'', JStr (js ''B''))]) (JObj []))
     (js ''name'') = JStr (js ''B'')"
  unfolding spread3_empty
  by (rule trans[OF getField_spread2_over]) (simp_all add: hasField_def getField_def field_def)



lemma ex_trails:
  "isTrailData (JObj [(js ''name'', JStr n), (js ''highlight'', JStr h)])"
  "isTrailData (JObj [(js ''name'', JStr n)])"
  "trailName (JObj [(js ''name'', JStr n), (js ''highlight'', JStr h)]) = JStr n"
  "trailName (JObj [(js ''name'', JStr n)]) = JStr n"
  by (simp_all add: isTrailData_def trailName_def field_def)

subsection \<open>The claims on the examples\<close>

theorem cache_precedence_witness:
  \<open>list_ex (nameMatches exampleRuntime (normalize exampleRuntime (js '' ALPS trail '')))
     (storedRecords exampleRuntime [(PREFIX @ js ''Alps'', js ''{"name":"Alps"}'')])
   \<and> handleSearch exampleRuntime rejecting (js '' ALPS trail '')
        (initialApp, [(PREFIX @ js ''Alps'', js ''{"name":"Alps"}'')])
      = ((initialApp\<lparr>currentTrail := Some (JObj [(js ''name'', JStr (js ''Alps''))]),
                     view := Guide, isLoading := False\<rparr>,
          [(PREFIX @ js ''Alps'', js ''{"name":"Alps"}'')]),
         [Display (Some (JObj [(js ''name'', JStr (js ''Alps''))]))])\<close>
proof -
  have h: \<open>list_ex (nameMatches exampleRuntime (normalize exampleRuntime (js '' ALPS trail '')))
     (storedRecords exampleRuntime [(PREFIX @ js ''Alps'', js ''{"name":"Alps"}'')])\<close>
    by (simp add: ex_norm ex_records_Alps ex_match_Alps)
  from cache_precedence[OF h, of rejecting initialApp]
  show ?thesis using h by (auto simp: ex_norm ex_records_Alps ex_match_Alps)
qed

theorem cache_precedence_counterexample:
  \<open>getItem [(PREFIX, js ''{"name":""}'')] PREFIX = Some (js ''{"name":""}'')
   \<and> JSON_parse exampleRuntime (js ''{"name":""}'') = Some (JObj [(js ''name'', JStr [])])
   \<and> includesStr (normalize exampleRuntime (js ''abc'')) (toLowerCase exampleRuntime [])
   \<and> findLocalTrail exampleRuntime [(PREFIX, js ''{"name":""}'')] (js ''abc'') = None
   \<and> providerCalls (snd (handleSearch exampleRuntime rejecting (js ''abc'')
         (initialApp, [(PREFIX, js ''{"name":""}'')]))) = [Call Basic]\<close>
proof -
  have f: \<open>findLocalTrail exampleRuntime [(PREFIX, js ''{"name":""}'')] (js ''abc'') = None\<close>
    by (simp add: findLocalTrail_find ex_records_empty_name)
  show ?thesis
    by (simp add: f handleSearch_miss[OF f] searchMiss_failure[OF ex_basic_rejected]
        providerCalls_def getItem_def ex_parse_empty_name includesStr_def ex_lower)
qed

theorem fuzzy_scan_fault_tolerance_witness:
  \<open>malformed exampleRuntime
       [(PREFIX @ js ''x'', js ''oops''), (PREFIX @ js ''Alps'', js ''{"name":"Alps"}'')]
       (PREFIX @ js ''x'')
   \<and> tryEntry exampleRuntime
       [(PREFIX @ js ''x'', js ''oops''), (PREFIX @ js ''Alps'', js ''{"name":"Alps"}'')]
       (js ''alps'') (PREFIX @ js ''x'') = Inl InvalidJSON
   \<and> scanKeys exampleRuntime
       [(PREFIX @ js ''x'', js ''oops''), (PREFIX @ js ''Alps'', js ''{"name":"Alps"}'')]
       (js ''alps'') [PREFIX @ js ''x'', PREFIX @ js ''Alps'']
     = scanKeys exampleRuntime
       [(PREFIX @ js ''x'', js ''oops''), (PREFIX @ js ''Alps'', js ''{"name":"Alps"}'')]
       (js ''alps'') [PREFIX @ js ''Alps'']
   \<and> findLocalTrail exampleRuntime
       [(PREFIX @ js ''x'', js ''oops''), (PREFIX @ js ''Alps'', js ''{"name":"Alps"}'')]
       (js ''alps'') = Some (JObj [(js ''name'', JStr (js ''Alps''))])
   \<and> (\<exists>k\<in>set (keys [(PREFIX @ js ''x'', js ''oops''),
                       (PREFIX @ js ''Alps'', js ''{"name":"Alps"}'')]).
         prefix PREFIX k
         \<and> \<not> malformed exampleRuntime
              [(PREFIX @ js ''x'', js ''oops''), (PREFIX @ js ''Alps'', js ''{"name":"Alps"}'')] k
         \<and> (\<exists>json. getItem [(PREFIX @ js ''x'', js ''oops''),
                             (PREFIX @ js ''Alps'', js ''{"name":"Alps"}'')] k = Some json
               \<and> JSON_parse exampleRuntime json = Some (JObj [(js ''name'', JStr (js ''Alps''))])))\<close>
proof -
  have m: \<open>malformed exampleRuntime
       [(PREFIX @ js ''x'', js ''oops''), (PREFIX @ js ''Alps'', js ''{"name":"Alps"}'')]
       (PREFIX @ js ''x'')\<close>
    by (simp add: malformed_def getItem_def ex_parse_oops)
  have t: \<open>tryEntry exampleRuntime
       [(PREFIX @ js ''x'', js ''oops''), (PREFIX @ js ''Alps'', js ''{"name":"Alps"}'')]
       (js ''alps'') (PREFIX @ js ''x'') = Inl InvalidJSON\<close>
    by (simp add: tryEntry_def getItem_def ex_parse_oops) (simp add: js_def)
  have f: \<open>findLocalTrail exampleRuntime
       [(PREFIX @ js ''x'', js ''oops''), (PREFIX @ js ''Alps'', js ''{"name":"Alps"}'')]
       (js ''alps'') = Some (JObj [(js ''name'', JStr (js ''Alps''))])\<close>
    by (simp add: findLocalTrail_find ex_records_oops ex_norm_alps ex_match_alps)
  from fuzzy_scan_fault_tolerance[of exampleRuntime
       \<open>[(PREFIX @ js ''x'', js ''oops''), (PREFIX @ js ''Alps'', js ''{"name":"Alps"}'')]\<close>
       "PREFIX @ js ''x''" "js ''alps''" "[PREFIX @ js ''Alps'']" "js ''alps''"
       "JObj [(js ''name'', JStr (js ''Alps''))]"]
  show ?thesis using m t f by blast
qed

theorem empty_query_lookup_witness:
  "list_all isWhiteSpace (js ''  '')
   \<and> toLowerCase exampleRuntime (js ''  '') = js ''  ''
   \<and> normalize exampleRuntime (js ''  '') = []
   \<and> findLocalTrail exampleRuntime (seedStore exampleRuntime []) (js ''  '')
       = Some mockCommunityData
   \<and> providerCalls (snd (handleSearch exampleRuntime rejecting (js ''  '')
         (initialApp, seedStore exampleRuntime []))) = []"
  using empty_query_lookup[OF ex_spaces ex_lower_spaces, of "seedStore exampleRuntime []"
      rejecting initialApp]
  by (simp add: ex_spaces ex_lower_spaces ex_seed ex_records_seed list_all_iff)

theorem empty_query_lookup_counterexample:
  \<open>keys [(PREFIX, js ''{"name":""}''), (PREFIX @ js ''Alps'', js ''{"name":"Alps"}'')]
     = [PREFIX, PREFIX @ js ''Alps'']
   \<and> JSON_parse exampleRuntime (js ''{"name":""}'') = Some (JObj [(js ''name'', JStr [])])
   \<and> normalize exampleRuntime (js ''  '') = []
   \<and> findLocalTrail exampleRuntime
        [(PREFIX, js ''{"name":""}''), (PREFIX @ js ''Alps'', js ''{"name":"Alps"}'')] (js ''  '')
      = Some (JObj [(js ''name'', JStr (js ''Alps''))])
   \<and> findLocalTrail exampleRuntime [(PREFIX, js ''{"name":""}'')] (js ''  '') = None
   \<and> providerCalls (snd (handleSearch exampleRuntime rejecting (js ''  '')
         (initialApp, [(PREFIX, js ''{"name":""}'')]))) = [Call Basic]\<close>
proof -
  have n: "normalize exampleRuntime (js ''  '') = []"
    by (simp add: normalize_def ex_lower_spaces trim_whitespace[OF ex_spaces])
  have f: \<open>findLocalTrail exampleRuntime [(PREFIX, js ''{"name":""}'')] (js ''  '') = None\<close>
    by (simp add: findLocalTrail_find ex_records_empty_name)
  have g: \<open>findLocalTrail exampleRuntime
        [(PREFIX, js ''{"name":""}''), (PREFIX @ js ''Alps'', js ''{"name":"Alps"}'')] (js ''  '')
      = Some (JObj [(js ''name'', JStr (js ''Alps''))])\<close>
    by (simp add: findLocalTrail_find ex_records_two n nameMatches_def field_def)
  show ?thesis
    by (simp add: n f g handleSearch_miss[OF f] searchMiss_failure[OF ex_basic_rejected]
        providerCalls_def keys_def ex_parse_empty_name)
qed

theorem basic_failure_terminal_witness:
  \<open>findLocalTrail exampleRuntime [] (js ''A'') = None
   \<and> basicFails exampleRuntime (basicR rejecting)
   \<and> handleSearch exampleRuntime rejecting (js ''A'') (initialApp, [])
       = ((initialApp\<lparr>isLoading := False\<rparr>, []), [Call Basic, Alert])
   \<and> generateBasicTrailInfo exampleRuntime
        (basicR (answering (js ''{"name":"A"}'') Rejected Rejected True))
       = Inr (JObj [(js ''name'', JStr (js ''A''))])
   \<and> alerts (snd (handleSearch exampleRuntime
        (answering (js ''{"name":"A"}'') Rejected Rejected True) (js ''A'') (initialApp, []))) = []
   \<and> settled Misc (snd (handleSearch exampleRuntime
        (answering (js ''{"name":"A"}'') Rejected Rejected True) (js ''A'') (initialApp, [])))
   \<and> settled Routes (snd (handleSearch exampleRuntime
        (answering (js ''{"name":"A"}'') Rejected Rejected True) (js ''A'') (initialApp, [])))
   \<and> storeWrites (snd (handleSearch exampleRuntime
        (answering (js ''{"name":"A"}'') Rejected Rejected True) (js ''A'') (initialApp, []))) \<noteq> []\<close>
proof -
  let ?rs = \<open>answering (js ''{"name":"A"}'') Rejected Rejected True\<close>
  let ?b = "JObj [(js ''name'', JStr (js ''A''))]"
  have f: "basicFails exampleRuntime (basicR rejecting)"
    by (simp add: basicFails_def rejecting_def)
  obtain p where p: "partialTrail ?b = Some p" using ex_partial_A by blast
  have m: "resolved (generateTrailMisc exampleRuntime ?b (miscR ?rs)) = JObj []"
    by (simp add: answering_def ex_misc_rejected resolved_def)
  have r: "resolved (generateTrailRoutes exampleRuntime ?b (routesR ?rs)) = JObj []"
    by (simp add: answering_def ex_routes_rejected resolved_def)
  have t: "template exampleRuntime
       (getField (spread3 p (resolved (generateTrailMisc exampleRuntime ?b (miscR ?rs)))
          (resolved (generateTrailRoutes exampleRuntime ?b (routesR ?rs)))) (js ''name''))
      \<noteq> None"
    unfolding m r by (simp add: ex_name_unmerged[OF p] ex_name_of_partial[OF p] ex_template_str)
  have b: "generateBasicTrailInfo exampleRuntime (basicR ?rs) = Inr ?b"
    by (rule ex_basic_A)
  from basic_failure_terminal[where rt = exampleRuntime and store = "[]" and query = "js ''A''"
        and rs = rejecting and st = initialApp, OF ex_miss_empty_store, THEN conjunct1] f
  have 1: "handleSearch exampleRuntime rejecting (js ''A'') (initialApp, [])
       = ((initialApp\<lparr>isLoading := False\<rparr>, []), [Call Basic, Alert])"
    by blast
  from basic_failure_terminal[where rt = exampleRuntime and store = "[]" and query = "js ''A''"
        and rs = ?rs and st = initialApp, OF ex_miss_empty_store, THEN conjunct2, rule_format,
        OF conjI[OF b p]] t
  have 2: "alerts (snd (handleSearch exampleRuntime ?rs (js ''A'') (initialApp, []))) = []
     \<and> settled Misc (snd (handleSearch exampleRuntime ?rs (js ''A'') (initialApp, [])))
     \<and> settled Routes (snd (handleSearch exampleRuntime ?rs (js ''A'') (initialApp, [])))
     \<and> storeWrites (snd (handleSearch exampleRuntime ?rs (js ''A'') (initialApp, []))) \<noteq> []"
    by simp
  from f 1 2 b ex_miss_empty_store show ?thesis by blast
qed

theorem partial_visibility_witness:
  \<open>findLocalTrail exampleRuntime [] (js ''A'') = None
   \<and> generateBasicTrailInfo exampleRuntime
        (basicR (answering (js ''{"name":"A"}'') Rejected Rejected True))
       = Inr (JObj [(js ''name'', JStr (js ''A''))])
   \<and> JObj [(js ''name'', JStr (js ''A''))] \<noteq> JNull
   \<and> JObj [(js ''name'', JStr (js ''A''))] \<noteq> JUndefined
   \<and> (\<exists>p rest. partialTrail (JObj [(js ''name'', JStr (js ''A''))]) = Some p
        \<and> snd (handleSearch exampleRuntime
             (answering (js ''{"name":"A"}'') Rejected Rejected True) (js ''A'') (initialApp, []))
           = [Call Basic, Display (Some p)] @ rest
        \<and> getField p (js ''name'') = JStr (js ''A'')
        \<and> getField p (js ''story'') = JUndefined
        \<and> getField p (js ''routeSegments'') = JUndefined)\<close>
proof -
  have n: "js ''name'' \<in> set basicFields" "js ''story'' \<in> set miscRouteFields"
    "js ''routeSegments'' \<in> set miscRouteFields"
    by (simp_all add: basicFields_def miscRouteFields_def)
  have g: "getProp (JObj [(js ''name'', JStr (js ''A''))]) (js ''name'') = Some (JStr (js ''A''))"
    by (simp add: field_def)
  from partial_visibility[where rt = exampleRuntime and store = "[]" and query = "js ''A''"
        and rs = \<open>answering (js ''{"name":"A"}'') Rejected Rejected True\<close>
        and st = initialApp, OF ex_miss_empty_store ex_basic_A]
  obtain p rest where p: "partialTrail (JObj [(js ''name'', JStr (js ''A''))]) = Some p"
    \<open>snd (handleSearch exampleRuntime
             (answering (js ''{"name":"A"}'') Rejected Rejected True) (js ''A'') (initialApp, []))
           = [Call Basic, Display (Some p)] @ rest\<close>
    "\<forall>k\<in>set basicFields. getProp (JObj [(js ''name'', JStr (js ''A''))]) k = Some (getField p k)"
    "\<forall>k\<in>set miscRouteFields. getField p k = JUndefined"
    by auto
  from p(3) n(1) g have "getField p (js ''name'') = JStr (js ''A'')" by auto
  with p n ex_miss_empty_store ex_basic_A show ?thesis by auto
qed

theorem partial_visibility_counterexample:
  \<open>generateBasicTrailInfo exampleRuntime (basicR (answering (js ''{}'') Rejected Rejected True))
     = Inr (JObj [])
   \<and> take 2 (snd (handleSearch exampleRuntime (answering (js ''{}'') Rejected Rejected True)
        (js ''A'') (initialApp, [])))
      = [Call Basic,
         Display (Some (JObj
           [(js ''name'', JUndefined),
            (js ''location'', JUndefined),
            (js ''highlight'', JUndefined),
            (js ''difficulty'', JUndefined),
            (js ''duration'', JUndefined),
            (js ''length'', JUndefined),
            (js ''elevationGain'', JUndefined),
            (js ''centerCoordinates'', JUndefined),
            (js ''description'', JUndefined),
            (js ''story'', JUndefined),
            (js ''routeSegments'', JUndefined),
            (js ''gear'', JUndefined),
            (js ''safetyTips'', JUndefined),
            (js ''bestSeason'', JUndefined),
            (js ''communityTips'', JUndefined)]))]\<close>
proof -
  from miss_run[where rt = exampleRuntime and rs = \<open>answering (js ''{}'') Rejected Rejected True\<close>
      and st = initialApp and store = "[]" and query = "js ''A''",
      OF ex_miss_empty_store ex_basic_empty ex_partial_empty]
  show ?thesis
    by (auto simp: ex_basic_empty)
qed

theorem single_persistence_witness:
  \<open>findLocalTrail exampleRuntime [] (js ''A'') = None
   \<and> generateBasicTrailInfo exampleRuntime
        (basicR (answering (js ''{"name":"A"}'') (Responded (Some (js ''{"story":"S"}'')))
                   (Responded (Some (js ''{"routeSegments":[]}''))) True))
       = Inr (JObj [(js ''name'', JStr (js ''A''))])
   \<and> (\<exists>p. partialTrail (JObj [(js ''name'', JStr (js ''A''))]) = Some p)
   \<and> writtenKeys (snd (handleSearch exampleRuntime
        (answering (js ''{"name":"A"}'') (Responded (Some (js ''{"story":"S"}'')))
                   (Responded (Some (js ''{"routeSegments":[]}''))) True)
        (js ''A'') (initialApp, []))) = [PREFIX @ js ''A'']
   \<and> settled Misc (butlast (snd (handleSearch exampleRuntime
        (answering (js ''{"name":"A"}'') (Responded (Some (js ''{"story":"S"}'')))
                   (Responded (Some (js ''{"routeSegments":[]}''))) True)
        (js ''A'') (initialApp, []))))
   \<and> settled Routes (butlast (snd (handleSearch exampleRuntime
        (answering (js ''{"name":"A"}'') (Responded (Some (js ''{"story":"S"}'')))
                   (Responded (Some (js ''{"routeSegments":[]}''))) True)
        (js ''A'') (initialApp, []))))
   \<and> generateBasicTrailInfo exampleRuntime
        (basicR (answering (js ''{"name":{"toString":null}}'') Rejected Rejected True))
       = Inr (JObj [(js ''name'', JObj [(js ''toString'', JNull)])])
   \<and> storeWrites (snd (handleSearch exampleRuntime
        (answering (js ''{"name":{"toString":null}}'') Rejected Rejected True)
        (js ''A'') (initialApp, []))) = []
   \<and> snd (fst (handleSearch exampleRuntime
        (answering (js ''{"name":{"toString":null}}'') Rejected Rejected True)
        (js ''A'') (initialApp, []))) = []\<close>
proof -
  let ?rs = \<open>answering (js ''{"name":"A"}'') (Responded (Some (js ''{"story":"S"}'')))
                   (Responded (Some (js ''{"routeSegments":[]}''))) True\<close>
  let ?b = "JObj [(js ''name'', JStr (js ''A''))]"
  let ?m = "JObj [(js ''story'', JStr (js ''S''))]"
  let ?r = "JObj [(js ''routeSegments'', JArr [])]"
  let ?rsN = \<open>answering (js ''{"name":{"toString":null}}'') Rejected Rejected True\<close>
  let ?bN = "JObj [(js ''name'', JObj [(js ''toString'', JNull)])]"
  obtain p where p: "partialTrail ?b = Some p" using ex_partial_A by blast
  have m: "?m = resolved (generateTrailMisc exampleRuntime ?b (miscR ?rs))"
    by (simp add: answering_def ex_misc_S resolved_def)
  have r: "?r = resolved (generateTrailRoutes exampleRuntime ?b (routesR ?rs))"
    by (simp add: answering_def ex_routes_none resolved_def)
  note sp = single_persistence[where rt = exampleRuntime and store = "[]" and query = "js ''A''"
      and rs = ?rs and st = initialApp, OF ex_miss_empty_store ex_basic_A p m r]
  from sp[THEN conjunct2, THEN conjunct2]
  have k: "getField (spread3 p ?m ?r) (js ''name'') = getField p (js ''name'')"
    by (simp add: ex_hasField_single ex_name_ne_story)
  have t: "template exampleRuntime (getField (spread3 p ?m ?r) (js ''name'')) = Some (js ''A'')"
    by (simp add: k ex_name_of_partial[OF p] ex_template_str)
  from sp[THEN conjunct1] t
  obtain pre where pre:
    "snd (handleSearch exampleRuntime ?rs (js ''A'') (initialApp, []))
       = pre @ [StoreSet (PREFIX @ js ''A'') (JSON_stringify exampleRuntime (spread3 p ?m ?r))]"
    "storeWrites pre = []" "settled Misc pre" "settled Routes pre"
    by blast
  have 1: "writtenKeys (snd (handleSearch exampleRuntime ?rs (js ''A'') (initialApp, [])))
          = [PREFIX @ js ''A'']"
    by (simp add: pre(1) writtenKeys_last[OF pre(2)])
  have 2: "butlast (snd (handleSearch exampleRuntime ?rs (js ''A'') (initialApp, []))) = pre"
    by (simp add: pre(1))
  obtain q where q: "partialTrail ?bN = Some q" using ex_partial_N by blast
  have mN: "JObj [] = resolved (generateTrailMisc exampleRuntime ?bN (miscR ?rsN))"
    by (simp add: ex_misc_N resolved_def)
  have rN: "JObj [] = resolved (generateTrailRoutes exampleRuntime ?bN (routesR ?rsN))"
    by (simp add: ex_routes_N resolved_def)
  have tN: "template exampleRuntime (getField (spread3 q (JObj []) (JObj [])) (js ''name'')) = None"
    by (simp add: ex_name_unmerged[OF q] ex_name_of_partial[OF q] ex_template_N)
  from single_persistence[where rt = exampleRuntime and store = "[]" and query = "js ''A''"
      and rs = ?rsN and st = initialApp, OF ex_miss_empty_store ex_basic_N q mN rN,
      THEN conjunct2, THEN conjunct1] tN
  have 3: "storeWrites (snd (handleSearch exampleRuntime ?rsN (js ''A'') (initialApp, []))) = []
     \<and> snd (fst (handleSearch exampleRuntime ?rsN (js ''A'') (initialApp, []))) = []"
    by blast
  have bN: "generateBasicTrailInfo exampleRuntime (basicR ?rsN) = Inr ?bN"
    by (rule ex_basic_N)
  from 1 2 3 bN show ?thesis
    using pre(3,4) p ex_miss_empty_store ex_basic_A by simp
qed

theorem single_persistence_counterexample:
  \<open>findLocalTrail exampleRuntime [] (js ''A'') = None
   \<and> generateBasicTrailInfo exampleRuntime
        (basicR (answering (js ''{"name":"A"}'') (Responded (Some (js ''{"name":"B"}''))) Rejected True))
       = Inr (JObj [(js ''name'', JStr (js ''A''))])
   \<and> generateTrailMisc exampleRuntime (JObj [(js ''name'', JStr (js ''A''))])
        (miscR (answering (js ''{"name":"A"}'') (Responded (Some (js ''{"name":"B"}''))) Rejected True))
       = Inr (JObj [(js ''name'', JStr (js ''B''))])
   \<and> writtenKeys (snd (handleSearch exampleRuntime
        (answering (js ''{"name":"A"}'') (Responded (Some (js ''{"name":"B"}''))) Rejected True)
        (js ''A'') (initialApp, []))) = [PREFIX @ js ''B'']
   \<and> PREFIX @ js ''B'' \<noteq> PREFIX @ js ''A''
   \<and> generateBasicTrailInfo exampleRuntime
        (basicR (answering (js ''{"name":{"toString":null}}'') Rejected Rejected True))
       = Inr (JObj [(js ''name'', JObj [(js ''toString'', JNull)])])
   \<and> snd (handleSearch exampleRuntime
        (answering (js ''{"name":{"toString":null}}'') Rejected Rejected True)
        (js ''A'') (initialApp, []))
       = [Call Basic,
          Display (partialTrail (JObj [(js ''name'', JObj [(js ''toString'', JNull)])])),
          ConsoleError Misc, ConsoleError Routes, UnhandledRejection]
   \<and> writtenKeys (snd (handleSearch exampleRuntime
        (answering (js ''{"name":{"toString":null}}'') Rejected Rejected True)
        (js ''A'') (initialApp, []))) = []\<close>
proof -
  let ?rs = \<open>answering (js ''{"name":"A"}'') (Responded (Some (js ''{"name":"B"}''))) Rejected True\<close>
  let ?b = "JObj [(js ''name'', JStr (js ''A''))]"
  let ?m = "JObj [(js ''name'', JStr (js ''B''))]"
  let ?rsN = \<open>answering (js ''{"name":{"toString":null}}'') Rejected Rejected True\<close>
  let ?bN = "JObj [(js ''name'', JObj [(js ''toString'', JNull)])]"
  have m: "generateTrailMisc exampleRuntime ?b (miscR ?rs) = Inr ?m"
    by (simp add: answering_def ex_misc_B)
  have r: "generateTrailRoutes exampleRuntime ?b (routesR ?rs) = Inl NetworkError"
    by (simp add: answering_def ex_routes_rejected)
  have m': "?m = resolved (generateTrailMisc exampleRuntime ?b (miscR ?rs))"
    by (simp add: m resolved_def)
  have r': "JObj [] = resolved (generateTrailRoutes exampleRuntime ?b (routesR ?rs))"
    by (simp add: r resolved_def)
  have t: "template exampleRuntime
      (getField (spread3 (the (partialTrail ?b)) ?m (JObj [])) (js ''name'')) = Some (js ''B'')"
    unfolding ex_partial_A option.sel by (simp add: ex_spread_B ex_template_str)
  have pb: "partialTrail ?b = Some (the (partialTrail ?b))"
    unfolding ex_partial_A by simp
  from miss_run_written(1)[where rt = exampleRuntime and store = "[]" and query = "js ''A''"
      and rs = ?rs and st = initialApp, OF ex_miss_empty_store ex_basic_A pb m' r' t]
  obtain pre v where pre:
    "snd (handleSearch exampleRuntime ?rs (js ''A'') (initialApp, []))
       = pre @ [StoreSet (PREFIX @ js ''B'') v]"
    "storeWrites pre = []"
    by blast
  have 1: "writtenKeys (snd (handleSearch exampleRuntime ?rs (js ''A'') (initialApp, [])))
          = [PREFIX @ js ''B'']"
    by (simp add: pre(1) writtenKeys_last[OF pre(2)])
  have 2: "PREFIX @ js ''B'' \<noteq> PREFIX @ js ''A''" by (simp add: js_def)
  obtain q where q: "partialTrail ?bN = Some q" using ex_partial_N by blast
  have tN: "template exampleRuntime
      (getField (spread3 q (JObj []) (JObj [])) (js ''name'')) = None"
    by (simp add: ex_name_unmerged[OF q] ex_name_of_partial[OF q] ex_template_N)
  have bN: "generateBasicTrailInfo exampleRuntime (basicR ?rsN) = Inr ?bN"
    by (rule ex_basic_N)
  have s: "stage2 exampleRuntime ?rsN ?bN q (st, [])
      = ((st, []), [ConsoleError Misc, ConsoleError Routes, UnhandledRejection])" for st
    by (simp add: stage2_def miscSettlesFirst_def stageRequests_def ex_miscPrompt_N
        ex_routesPrompt_N settleMisc_Inl[OF ex_misc_N] settleRoutes_Inl[OF ex_routes_N]
        persistFinal_None[OF tN])
  have 3: "snd (handleSearch exampleRuntime ?rsN (js ''A'') (initialApp, []))
       = [Call Basic, Display (partialTrail ?bN),
          ConsoleError Misc, ConsoleError Routes, UnhandledRejection]"
    unfolding handleSearch_miss[OF ex_miss_empty_store]
    by (simp add: searchMiss_def bN q s)
  have 4: "writtenKeys (snd (handleSearch exampleRuntime ?rsN (js ''A'') (initialApp, []))) = []"
    unfolding 3 by (simp add: writtenKeys_def)
  from m ex_miss_empty_store ex_basic_A 1 2 bN 3 4 show ?thesis by blast
qed



theorem routes_stage_result_witness:
  \<open>generateTrailRoutes exampleRuntime (JObj [(js ''name'', JStr (js ''A''))])
        (Responded (Some (js ''```json{}``` ''))) = Inr (JObj [])
   \<and> generateTrailRoutes exampleRuntime (JObj [(js ''name'', JStr (js ''A''))]) Rejected
        \<noteq> Inr (JObj [])
   \<and> Call Routes \<in> set (stageRequests exampleRuntime (JObj [(js ''name'', JStr (js ''A''))]))
   \<and> generateTrailRoutes exampleRuntime (JObj [(js ''name'', JObj [(js ''toString'', JNull)])])
        (Responded (Some (js ''{}''))) \<noteq> Inr (JObj [])
   \<and> Call Routes \<notin> set (stageRequests exampleRuntime
        (JObj [(js ''name'', JObj [(js ''toString'', JNull)])]))\<close>
proof -
  let ?b = "JObj [(js ''name'', JStr (js ''A''))]"
  let ?bN = "JObj [(js ''name'', JObj [(js ''toString'', JNull)])]"
  have c: \<open>trim (removeAll (js ''```'') (removeAll (js ''```json'') (js ''```json{}``` ''))) = js ''{}''\<close>
    by (simp add: js_def trim_def isWhiteSpace_def)
  have n: \<open>js ''```json{}``` '' \<noteq> []\<close> by (simp add: js_def)
  have pA: "routesPrompt exampleRuntime ?b \<noteq> None"
    by (simp add: ex_routesPrompt_A)
  from routes_stage_result[of exampleRuntime ?b \<open>Responded (Some (js ''```json{}``` ''))\<close> "JObj []"]
  have 1: \<open>generateTrailRoutes exampleRuntime ?b (Responded (Some (js ''```json{}``` ''))) = Inr (JObj [])\<close>
    and 3: "Call Routes \<in> set (stageRequests exampleRuntime ?b)"
    using c n pA ex_parse_empty by auto
  from routes_stage_result[of exampleRuntime ?b Rejected "JObj []"]
  have 2: "generateTrailRoutes exampleRuntime ?b Rejected \<noteq> Inr (JObj [])"
    by auto
  from routes_stage_result[of exampleRuntime ?bN \<open>Responded (Some (js ''{}''))\<close> "JObj []"]
  have 4: \<open>generateTrailRoutes exampleRuntime ?bN (Responded (Some (js ''{}''))) \<noteq> Inr (JObj [])\<close>
    and 5: "Call Routes \<notin> set (stageRequests exampleRuntime ?bN)"
    using ex_routesPrompt_N by auto
  from 1 2 3 4 5 show ?thesis by blast
qed

theorem routes_stage_result_counterexample:
  \<open>generateTrailRoutes exampleRuntime (JObj [(js ''name'', JStr (js ''A''))])
      (Responded (Some (js ''{"routeSegments":[]}''))) = Inr (JObj [(js ''routeSegments'', JArr [])])
   \<and> conforms routesSchema (JObj [(js ''routeSegments'', JArr [])])
   \<and> \<not> routesContract (JObj [(js ''routeSegments'', JArr [])])
   \<and> generateTrailRoutes exampleRuntime (JObj [(js ''name'', JStr (js ''A''))])
      (Responded (Some (js ''{}''))) = Inr (JObj [])
   \<and> \<not> conforms routesSchema (JObj [])
   \<and> \<not> routesContract (JObj [])\<close>
proof -
  have 1: "conforms routesSchema (JObj [(js ''routeSegments'', JArr [])])"
    by (simp add: routesSchema_def)
  have 2: "\<not> routesContract (JObj [(js ''routeSegments'', JArr [])])"
    by (simp add: routesContract_def field_def)
  have 4: "\<not> conforms routesSchema (JObj [])"
    by (simp add: routesSchema_def)
  have 5: "\<not> routesContract (JObj [])"
    by (simp add: routesContract_def field_def)
  from ex_routes_none 1 2 ex_routes_empty 4 5 show ?thesis by blast
qed


theorem ledger_upsert_witness:
  "list_all isTrailData
     (savedTrails (initialApp\<lparr>savedTrails :=
        [JObj [(js ''name'', JStr (js ''A'')), (js ''highlight'', JStr (js ''old''))],
         JObj [(js ''name'', JStr (js ''B''))]]\<rparr>))
   \<and> isTrailData (JObj [(js ''name'', JStr (js ''A'')), (js ''highlight'', JStr (js ''new''))])
   \<and> isTrailData (JObj [(js ''name'', JStr (js ''C''))])
   \<and> handleSaveTrail (JObj [(js ''name'', JStr (js ''C''))])
        (initialApp\<lparr>savedTrails :=
          [JObj [(js ''name'', JStr (js ''A'')), (js ''highlight'', JStr (js ''old''))],
           JObj [(js ''name'', JStr (js ''B''))]]\<rparr>)
      = Inr (initialApp\<lparr>savedTrails :=
          [JObj [(js ''name'', JStr (js ''A'')), (js ''highlight'', JStr (js ''old''))],
           JObj [(js ''name'', JStr (js ''B''))],
           JObj [(js ''name'', JStr (js ''C''))]]\<rparr>)
   \<and> handleSaveTrail (JObj [(js ''name'', JStr (js ''A'')), (js ''highlight'', JStr (js ''new''))])
        (initialApp\<lparr>savedTrails :=
          [JObj [(js ''name'', JStr (js ''A'')), (js ''highlight'', JStr (js ''old''))],
           JObj [(js ''name'', JStr (js ''B''))]]\<rparr>)
      = Inr (initialApp\<lparr>savedTrails :=
          [JObj [(js ''name'', JStr (js ''A'')), (js ''highlight'', JStr (js ''new''))],
           JObj [(js ''name'', JStr (js ''B''))]]\<rparr>)
   \<and> handleSaveTrail (JObj [(js ''name'', JStr (js ''A'')), (js ''highlight'', JStr (js ''new''))])
        (initialApp\<lparr>savedTrails :=
          [JObj [(js ''name'', JStr (js ''A'')), (js ''highlight'', JStr (js ''new''))],
           JObj [(js ''name'', JStr (js ''B''))]]\<rparr>)
      = Inr (initialApp\<lparr>savedTrails :=
          [JObj [(js ''name'', JStr (js ''A'')), (js ''highlight'', JStr (js ''new''))],
           JObj [(js ''name'', JStr (js ''B''))]]\<rparr>)"
proof -
  let ?st = "initialApp\<lparr>savedTrails :=
        [JObj [(js ''name'', JStr (js ''A'')), (js ''highlight'', JStr (js ''old''))],
         JObj [(js ''name'', JStr (js ''B''))]]\<rparr>"
  have h: "\<forall>t\<in>set (savedTrails ?st). isTrailData t"
    by (simp add: ex_trails)
  have ne: "js ''C'' \<noteq> js ''A''" "js ''C'' \<noteq> js ''B''" "js ''B'' \<noteq> js ''A''"
    by (simp_all add: js_def)
  from ledger_upsert[OF h ex_trails(2), of "js ''C''"]
  have 1: "handleSaveTrail (JObj [(js ''name'', JStr (js ''C''))]) ?st
      = Inr (?st\<lparr>savedTrails := savedTrails ?st @ [JObj [(js ''name'', JStr (js ''C''))]]\<rparr>)"
    by (simp add: ex_trails ne)
  from ledger_upsert[OF h ex_trails(1), of "js ''A''" "js ''new''"]
  have 2: "handleSaveTrail (JObj [(js ''name'', JStr (js ''A'')), (js ''highlight'', JStr (js ''new''))]) ?st
      = Inr (?st\<lparr>savedTrails :=
              map (\<lambda>t. if trailName t = JStr (js ''A'')
                        then JObj [(js ''name'', JStr (js ''A'')), (js ''highlight'', JStr (js ''new''))]
                        else t) (savedTrails ?st)\<rparr>)"
    by (simp add: ex_trails ne)
  let ?st1 = "initialApp\<lparr>savedTrails :=
        [JObj [(js ''name'', JStr (js ''A'')), (js ''highlight'', JStr (js ''new''))],
         JObj [(js ''name'', JStr (js ''B''))]]\<rparr>"
  have h1: "\<forall>t\<in>set (savedTrails ?st1). isTrailData t"
    by (simp add: ex_trails)
  from ledger_upsert[OF h1 ex_trails(1), of "js ''A''" "js ''new''"]
  have 3: "handleSaveTrail (JObj [(js ''name'', JStr (js ''A'')), (js ''highlight'', JStr (js ''new''))]) ?st1
      = Inr (?st1\<lparr>savedTrails :=
              map (\<lambda>t. if trailName t = JStr (js ''A'')
                        then JObj [(js ''name'', JStr (js ''A'')), (js ''highlight'', JStr (js ''new''))]
                        else t) (savedTrails ?st1)\<rparr>)"
    by (simp add: ex_trails ne)
  from 1 2 3 h show ?thesis
    by (simp add: ex_trails ne list_all_iff)
qed

end
